theory Spec2Isabelle
  imports Complex_Main "HOL-Library.AList" "HOL-Library.Sublist"
begin

section \<open>Python values shared by both modules\<close>

text \<open>
  A Python \<^verbatim>\<open>float\<close> is a finite number, one of the two infinities, or NaN.
  Every finite double is a real number, and the source only compares floats with
  integer constants, so the finite part is embedded in \<^typ>\<open>real\<close>.
\<close>

datatype pyfloat = Fin real | PosInf | NegInf | NaN

text \<open>Python's \<^verbatim>\<open>a <= b\<close> on floats: every comparison with NaN is false.\<close>

fun fle :: "pyfloat \<Rightarrow> pyfloat \<Rightarrow> bool" where
  "fle NaN b = False"
| "fle a NaN = False"
| "fle NegInf b = True"
| "fle a PosInf = True"
| "fle (Fin a) (Fin b) = (a \<le> b)"
| "fle PosInf b = False"
| "fle a NegInf = False"

text \<open>Python's \<^verbatim>\<open>a >= b\<close>.\<close>

definition fge :: "pyfloat \<Rightarrow> pyfloat \<Rightarrow> bool" where
  "fge a b = fle b a"

text \<open>
  The exceptions the two modules raise or catch. Each carries what \<^verbatim>\<open>str(e)\<close>
  gives. All of them are subclasses of \<^verbatim>\<open>Exception\<close>.
\<close>

datatype exn =
    FileNotFoundError string
  | JSONDecodeError string
  | ValueError string
  | RuntimeError string
  | TypeError string
  | KeyError string
  | IndexError string
  | AttributeError string
  | UnicodeEncodeError string
  | OtherException string

fun str_exn :: "exn \<Rightarrow> string" where
  "str_exn (FileNotFoundError m) = m"
| "str_exn (JSONDecodeError m) = m"
| "str_exn (ValueError m) = m"
| "str_exn (RuntimeError m) = m"
| "str_exn (TypeError m) = m"
| "str_exn (KeyError m) = m"
| "str_exn (IndexError m) = m"
| "str_exn (AttributeError m) = m"
| "str_exn (UnicodeEncodeError m) = m"
| "str_exn (OtherException m) = m"

text \<open>
  A decoded JSON document, as \<^verbatim>\<open>json.load\<close> returns it: \<^verbatim>\<open>None\<close>, a bool, an
  int, a float, a string, a list or a dict. A dict is an association list in insertion
  order whose keys are distinct; the same type stands for the plain dicts and lists the
  handlers build.
\<close>

datatype json =
    JNull
  | JBool bool
  | JInt int
  | JNum pyfloat
  | JStr string
  | JList "json list"
  | JDict "(string \<times> json) list"

text \<open>Sequencing of steps that may raise: the first exception ends the sequence.\<close>

fun bnd :: "exn + 'a \<Rightarrow> ('a \<Rightarrow> exn + 'b) \<Rightarrow> exn + 'b" where
  "bnd (Inl e) f = Inl e"
| "bnd (Inr v) f = f v"

text \<open>\<^verbatim>\<open>type(x).__name__\<close>, as Python's error messages print it.\<close>

fun type_name :: "json \<Rightarrow> string" where
  "type_name JNull = ''NoneType''"
| "type_name (JBool b) = ''bool''"
| "type_name (JInt n) = ''int''"
| "type_name (JNum f) = ''float''"
| "type_name (JStr s) = ''str''"
| "type_name (JList xs) = ''list''"
| "type_name (JDict d) = ''dict''"

text \<open>A name between single quotes, as the messages print it.\<close>

definition quoted :: "string \<Rightarrow> string" where
  "quoted s = [CHR 0x27] @ s @ [CHR 0x27]"

definition no_attribute :: "string \<Rightarrow> string \<Rightarrow> exn" where
  "no_attribute ty attr =
     AttributeError (quoted ty @ '' object has no attribute '' @ quoted attr)"

text \<open>\<^verbatim>\<open>x.get(k, default)\<close>: only a dict has the method.\<close>

fun py_get :: "json \<Rightarrow> string \<Rightarrow> json \<Rightarrow> exn + json" where
  "py_get (JDict d) k dflt = Inr (case map_of d k of None \<Rightarrow> dflt | Some v \<Rightarrow> v)"
| "py_get x k dflt = Inl (no_attribute (type_name x) ''get'')"

text \<open>\<^verbatim>\<open>len(x)\<close>: defined on strings, lists and dicts.\<close>

fun py_len :: "json \<Rightarrow> exn + nat" where
  "py_len (JStr s) = Inr (length s)"
| "py_len (JList xs) = Inr (length xs)"
| "py_len (JDict d) = Inr (length d)"
| "py_len x = Inl (TypeError (''object of type '' @ quoted (type_name x) @ '' has no len()''))"

text \<open>
  \<^verbatim>\<open>k in x\<close> for a string \<open>k\<close>: key membership in a dict, element membership in a
  list, substring test in a string; the other values are not iterable.
\<close>

fun py_in :: "string \<Rightarrow> json \<Rightarrow> exn + bool" where
  "py_in k (JDict d) = Inr (k \<in> fst ` set d)"
| "py_in k (JList xs) = Inr (JStr k \<in> set xs)"
| "py_in k (JStr s) = Inr (sublist k s)"
| "py_in k x = Inl (TypeError (''argument of type '' @ quoted (type_name x) @ '' is not iterable''))"

text \<open>\<^verbatim>\<open>x[k]\<close> for a string \<open>k\<close>: a dict looks the key up; a list and a string want an integer.\<close>

fun py_getitem :: "json \<Rightarrow> string \<Rightarrow> exn + json" where
  "py_getitem (JDict d) k = (case map_of d k of None \<Rightarrow> Inl (KeyError (quoted k)) | Some v \<Rightarrow> Inr v)"
| "py_getitem (JList xs) k = Inl (TypeError ''list indices must be integers or slices, not str'')"
| "py_getitem (JStr s) k = Inl (TypeError ''string indices must be integers'')"
| "py_getitem x k = Inl (TypeError (quoted (type_name x) @ '' object is not subscriptable''))"

text \<open>
  \<^verbatim>\<open>x[i]\<close> for the literal indices 0 and 1: an element of a list, a character of a
  string; a decoded JSON dict has string keys only, so the integer is a missing key.
\<close>

fun py_index :: "json \<Rightarrow> nat \<Rightarrow> exn + json" where
  "py_index (JList xs) i =
     (if i < length xs then Inr (xs ! i) else Inl (IndexError ''list index out of range''))"
| "py_index (JStr s) i =
     (if i < length s then Inr (JStr [s ! i]) else Inl (IndexError ''string index out of range''))"
| "py_index (JDict d) i = Inl (KeyError (if i = 0 then ''0'' else ''1''))"
| "py_index x i = Inl (TypeError (quoted (type_name x) @ '' object is not subscriptable''))"

text \<open>\<^verbatim>\<open>for v in x\<close>: the elements of a list, the keys of a dict, the characters of a string.\<close>

fun py_iter :: "json \<Rightarrow> exn + json list" where
  "py_iter (JList xs) = Inr xs"
| "py_iter (JDict d) = Inr (map (\<lambda>kv. JStr (fst kv)) d)"
| "py_iter (JStr s) = Inr (map (\<lambda>c. JStr [c]) s)"
| "py_iter x = Inl (TypeError (quoted (type_name x) @ '' object is not iterable''))"

section \<open>backend/main.py: request models\<close>

text \<open>
  The pydantic models. A validator either returns its value or raises
  \<^verbatim>\<open>ValueError\<close> with a message; pydantic runs the validators of every field and
  collects the messages, and constructing the model raises a validation error when the
  collection is not empty. The model starts after pydantic's coercion of the raw JSON
  fields to \<^verbatim>\<open>float\<close> and \<^verbatim>\<open>str\<close>.
\<close>

definition validate_latitude :: "pyfloat \<Rightarrow> string + pyfloat" where
  "validate_latitude v =
     (if \<not> (fle (Fin (- 90)) v \<and> fle v (Fin 90))
      then Inl ''Latitude must be between -90 and 90''
      else Inr v)"

definition validate_longitude :: "pyfloat \<Rightarrow> string + pyfloat" where
  "validate_longitude v =
     (if \<not> (fle (Fin (- 180)) v \<and> fle v (Fin 180))
      then Inl ''Longitude must be between -180 and 180''
      else Inr v)"

definition valid_types :: "string list" where
  "valid_types = [''fastest'', ''safe'', ''bike'', ''safe_bike'']"

definition validate_route_type :: "string \<Rightarrow> string + string" where
  "validate_route_type v =
     (if v \<notin> set valid_types
      then Inl ''Route type must be one of: ['fastest', 'safe', 'bike', 'safe_bike']''
      else Inr v)"

definition valid_algorithms :: "string list" where
  "valid_algorithms = [''dijkstra'', ''astar'']"

definition validate_algorithm :: "string \<Rightarrow> string + string" where
  "validate_algorithm v =
     (if v \<notin> set valid_algorithms
      then Inl ''Algorithm must be one of: ['dijkstra', 'astar']''
      else Inr v)"

text \<open>The messages of the validators that raised, in field order.\<close>

fun errors_of :: "(string + 'a) \<Rightarrow> string list" where
  "errors_of (Inl m) = [m]"
| "errors_of (Inr v) = []"

record RouteRequestModel =
  start_lat :: pyfloat
  start_lon :: pyfloat
  end_lat :: pyfloat
  end_lon :: pyfloat
  route_type :: string
  algorithm :: string

text \<open>
  \<^verbatim>\<open>RouteRequestModel(start_lat=.., start_lon=.., end_lat=.., end_lon=.., route_type=..,
  algorithm=..)\<close>. The algorithm is optional: when the field is omitted
  (\<open>None\<close> here) the default \<^verbatim>\<open>'dijkstra'\<close> is taken, and pydantic does not run the
  validator on a default.
\<close>

definition new_RouteRequestModel ::
  "pyfloat \<Rightarrow> pyfloat \<Rightarrow> pyfloat \<Rightarrow> pyfloat \<Rightarrow> string \<Rightarrow> string option
     \<Rightarrow> string list + RouteRequestModel" where
  "new_RouteRequestModel slat slon elat elon rt alg =
     (let errs = errors_of (validate_latitude slat) @ errors_of (validate_longitude slon)
               @ errors_of (validate_latitude elat) @ errors_of (validate_longitude elon)
               @ errors_of (validate_route_type rt)
               @ (case alg of None \<Rightarrow> [] | Some a \<Rightarrow> errors_of (validate_algorithm a))
      in if errs \<noteq> [] then Inl errs
         else Inr \<lparr>start_lat = slat, start_lon = slon, end_lat = elat, end_lon = elon,
                   route_type = rt,
                   algorithm = (case alg of None \<Rightarrow> ''dijkstra'' | Some a \<Rightarrow> a)\<rparr>)"

text \<open>
  \<^verbatim>\<open>RouteCompareRequestModel\<close>: the fields carry the prefix \<open>cmp_\<close> here, since a
  record's field names are global. It declares the two coordinate validators only;
  \<^verbatim>\<open>route_types\<close> is \<^verbatim>\<open>Optional[List[str]] = None\<close> and \<^verbatim>\<open>algorithm\<close> is
  \<^verbatim>\<open>str = 'dijkstra'\<close>, both without a validator.
\<close>

record RouteCompareRequestModel =
  cmp_start_lat :: pyfloat
  cmp_start_lon :: pyfloat
  cmp_end_lat :: pyfloat
  cmp_end_lon :: pyfloat
  cmp_route_types :: "string list option"
  cmp_algorithm :: string

definition new_RouteCompareRequestModel ::
  "pyfloat \<Rightarrow> pyfloat \<Rightarrow> pyfloat \<Rightarrow> pyfloat \<Rightarrow> string list option \<Rightarrow> string option
     \<Rightarrow> string list + RouteCompareRequestModel" where
  "new_RouteCompareRequestModel slat slon elat elon rts alg =
     (let errs = errors_of (validate_latitude slat) @ errors_of (validate_longitude slon)
               @ errors_of (validate_latitude elat) @ errors_of (validate_longitude elon)
      in if errs \<noteq> [] then Inl errs
         else Inr \<lparr>cmp_start_lat = slat, cmp_start_lon = slon, cmp_end_lat = elat,
                   cmp_end_lon = elon, cmp_route_types = rts,
                   cmp_algorithm = (case alg of None \<Rightarrow> ''dijkstra'' | Some a \<Rightarrow> a)\<rparr>)"

text \<open>The ranges the specification names, on Python floats.\<close>

definition lat_ok :: "pyfloat \<Rightarrow> bool" where
  "lat_ok v = (case v of Fin x \<Rightarrow> - 90 \<le> x \<and> x \<le> 90 | _ \<Rightarrow> False)"

definition lon_ok :: "pyfloat \<Rightarrow> bool" where
  "lon_ok v = (case v of Fin x \<Rightarrow> - 180 \<le> x \<and> x \<le> 180 | _ \<Rightarrow> False)"

section \<open>backend/main.py: application state and start-up\<close>

text \<open>
  The global \<^verbatim>\<open>app_state\<close> dictionary, one field per key. The analyzers, the graph
  builder, the route calculator and the calibrated weights are objects of classes whose
  modules are not among the sources; they are values of the type parameter \<open>'obj\<close>,
  and \<open>None\<close> is Python's \<^verbatim>\<open>None\<close>.
\<close>

record 'obj app_state =
  initialized :: bool
  crime_analyzer :: "'obj option"
  osm_analyzer :: "'obj option"
  graph_builder :: "'obj option"
  route_calculator :: "'obj option"
  calibrated_weights :: "'obj option"
  initialization_time :: real
  startup_errors :: "string list"

definition app_state_initial :: "'obj app_state" where
  "app_state_initial =
     \<lparr>initialized = False, crime_analyzer = None, osm_analyzer = None, graph_builder = None,
      route_calculator = None, calibrated_weights = None, initialization_time = 0,
      startup_errors = []\<rparr>"

text \<open>
  What \<^verbatim>\<open>initialize_system\<close> meets outside this module: the two data files and the
  calls into the absent classes, in the order of the source, each either raising
  (\<open>Inl\<close>) or returning.
  \<^item> \<open>analyze_crime_data\<close>: \<^verbatim>\<open>CrimeDataAnalyzer()\<close> and its \<^verbatim>\<open>analyze_crime_data\<close>;
    the analyzer that results. \<open>crime_count_logged\<close>: the
    \<^verbatim>\<open>crime_results.get(..)\<close> of the log line after the analyzer is stored.
  \<^item> \<open>analyze_osm_networks\<close>: \<^verbatim>\<open>OSMAnalyzer()\<close> and its \<^verbatim>\<open>analyze_osm_networks\<close>;
    \<open>osm_count_logged\<close>: the \<^verbatim>\<open>osm_results.get(..)\<close> of its log line.
  \<^item> \<open>master_calibration\<close>: \<^verbatim>\<open>WeightCalibrator().master_calibration(..)\<close>.
  \<^item> \<open>new_graph_builder\<close>: \<^verbatim>\<open>WeightedGraphBuilder()\<close>.
  \<^item> \<open>export_network_for_routing\<close>: the combined graph of the OSM analyzer, or
    \<^verbatim>\<open>None\<close>; \<open>number_of_nodes\<close> its node count.
  \<^item> \<open>create_weighted_graphs\<close>: the three loads and \<^verbatim>\<open>create_weighted_graphs()\<close>
    on the builder, from the graph, the weights and the crime analyzer; the builder that
    results. \<open>graph_count_logged\<close>: the \<^verbatim>\<open>len(weighted_graphs)\<close> of the log line
    after the builder is stored.
  \<^item> \<open>validate_graphs\<close>: the builder's validation and the scan of its result.
  \<^item> \<open>rc_initialize\<close>: \<^verbatim>\<open>RouteCalculator()\<close> and the boolean its
    \<^verbatim>\<open>initialize(graph_builder, crime_analyzer)\<close> returns.
  \<^item> \<open>elapsed\<close>: \<^verbatim>\<open>time.time() - startup_start\<close> at the end.
\<close>

record 'obj init_env =
  indy_csv_exists :: bool
  indy_csv_path :: string
  wl_json_exists :: bool
  wl_json_path :: string
  analyze_crime_data :: "exn + 'obj"
  crime_count_logged :: "exn + unit"
  analyze_osm_networks :: "exn + 'obj"
  osm_count_logged :: "exn + unit"
  master_calibration :: "exn + 'obj"
  new_graph_builder :: "exn + 'obj"
  export_network_for_routing :: "'obj \<Rightarrow> exn + 'obj option"
  number_of_nodes :: "'obj \<Rightarrow> exn + nat"
  create_weighted_graphs :: "'obj \<Rightarrow> 'obj \<Rightarrow> 'obj \<Rightarrow> 'obj \<Rightarrow> exn + 'obj"
  graph_count_logged :: "exn + unit"
  validate_graphs :: "'obj \<Rightarrow> exn + unit"
  rc_initialize :: "'obj \<Rightarrow> 'obj \<Rightarrow> exn + ('obj \<times> bool)"
  elapsed :: real

text \<open>
  The \<^verbatim>\<open>try\<close> block of \<^verbatim>\<open>initialize_system\<close>: the state when the block is left,
  and the exception that left it, if one did. The writes to \<^verbatim>\<open>app_state\<close> happen in
  the source's order, so a failure keeps the components stored before it. \<open>step r st k\<close>
  is one call that may raise: it leaves the block with the state \<open>st\<close> when \<open>r\<close> is an
  exception and goes on with \<open>k\<close> otherwise.
\<close>

definition step ::
  "exn + 'a \<Rightarrow> 'st \<Rightarrow> ('a \<Rightarrow> 'st \<times> exn option) \<Rightarrow> 'st \<times> exn option" where
  "step r st k = (case r of Inl e \<Rightarrow> (st, Some e) | Inr v \<Rightarrow> k v)"

text \<open>The second half of the block, from the graph obtained from the OSM analyzer on.\<close>

definition init_graphs ::
  "'obj init_env \<Rightarrow> 'obj app_state \<Rightarrow> 'obj \<Rightarrow> 'obj \<Rightarrow> 'obj \<Rightarrow> 'obj option
     \<Rightarrow> 'obj app_state \<times> exn option" where
  "init_graphs env st3 ca cw builder combined_graph =
     (case combined_graph of
        None \<Rightarrow> (st3, Some (ValueError ''No valid road network available from OSM analysis''))
      | Some g \<Rightarrow>
          step (number_of_nodes env g) st3 (\<lambda>n.
          (if n = 0 then
             (st3, Some (ValueError ''No valid road network available from OSM analysis''))
           else
             step (create_weighted_graphs env builder g cw ca) st3 (\<lambda>gb.
             let st4 = st3\<lparr>graph_builder := Some gb\<rparr> in
             step (graph_count_logged env) st4 (\<lambda>u1.
             step (validate_graphs env gb) st4 (\<lambda>u2.
             step (rc_initialize env gb ca) st4 (\<lambda>r.
             (if \<not> snd r then
                (st4, Some (RuntimeError ''Failed to initialize route calculator''))
              else
                (st4\<lparr>route_calculator := Some (fst r), initialized := True,
                     initialization_time := elapsed env\<rparr>, None)))))))))"

definition init_try :: "'obj init_env \<Rightarrow> 'obj app_state \<Rightarrow> 'obj app_state \<times> exn option" where
  "init_try env st =
     (if \<not> indy_csv_exists env then
        (st, Some (FileNotFoundError (''Indianapolis crime data not found: '' @ indy_csv_path env)))
      else if \<not> wl_json_exists env then
        (st, Some (FileNotFoundError (''West Lafayette crime data not found: '' @ wl_json_path env)))
      else
        step (analyze_crime_data env) st (\<lambda>ca.
        let st1 = st\<lparr>crime_analyzer := Some ca\<rparr> in
        step (crime_count_logged env) st1 (\<lambda>u1.
        step (analyze_osm_networks env) st1 (\<lambda>osm.
        let st2 = st1\<lparr>osm_analyzer := Some osm\<rparr> in
        step (osm_count_logged env) st2 (\<lambda>u2.
        step (master_calibration env) st2 (\<lambda>cw.
        let st3 = st2\<lparr>calibrated_weights := Some cw\<rparr> in
        step (new_graph_builder env) st3 (\<lambda>builder.
        step (export_network_for_routing env osm) st3 (\<lambda>combined_graph.
        init_graphs env st3 ca cw builder combined_graph))))))))"

text \<open>
  \<^verbatim>\<open>initialize_system\<close>: the \<^verbatim>\<open>try\<close> block, and the \<^verbatim>\<open>except Exception as e\<close>
  clause, which appends the message and clears the flag. The result is \<open>Inl\<close> when an
  exception leaves the function and \<open>Inr\<close> of the new state when it returns.
\<close>

definition initialize_system :: "'obj init_env \<Rightarrow> 'obj app_state \<Rightarrow> exn + 'obj app_state" where
  "initialize_system env st =
     (case init_try env st of
        (st', None) \<Rightarrow> Inr st'
      | (st', Some e) \<Rightarrow>
          Inr (st'\<lparr>startup_errors :=
                      startup_errors st' @ [''System initialization failed: '' @ str_exn e],
                    initialized := False\<rparr>))"

section \<open>backend/main.py: the endpoints\<close>

text \<open>
  \<^verbatim>\<open>RouteRequest\<close> and \<^verbatim>\<open>RouteResult\<close> of the absent \<^verbatim>\<open>route_calculator\<close> module,
  with the fields this module writes and reads (prefixes \<open>rq_\<close> and \<open>res_\<close>), and
  \<^verbatim>\<open>RouteResponseModel\<close> (prefix \<open>resp_\<close>).
\<close>

record RouteRequest =
  rq_start_lat :: pyfloat
  rq_start_lon :: pyfloat
  rq_end_lat :: pyfloat
  rq_end_lon :: pyfloat
  rq_route_type :: string
  rq_algorithm :: string

record RouteResult =
  res_route :: "pyfloat list list"
  res_distance_meters :: pyfloat
  res_estimated_time_minutes :: pyfloat
  res_safety_score :: pyfloat
  res_bike_coverage_percent :: pyfloat
  res_route_type :: string
  res_algorithm_used :: string
  res_calculation_time_ms :: pyfloat
  res_node_count :: int
  res_error_message :: "string option"

record RouteResponseModel =
  resp_route :: "pyfloat list list"
  resp_distance_meters :: pyfloat
  resp_estimated_time_minutes :: pyfloat
  resp_safety_score :: pyfloat
  resp_bike_coverage_percent :: pyfloat
  resp_route_type :: string
  resp_algorithm_used :: string
  resp_calculation_time_ms :: pyfloat
  resp_node_count :: int
  resp_error_message :: "string option"

text \<open>The conversion both route handlers write out field by field.\<close>

definition to_response :: "RouteResult \<Rightarrow> RouteResponseModel" where
  "to_response r =
     \<lparr>resp_route = res_route r,
      resp_distance_meters = res_distance_meters r,
      resp_estimated_time_minutes = res_estimated_time_minutes r,
      resp_safety_score = res_safety_score r,
      resp_bike_coverage_percent = res_bike_coverage_percent r,
      resp_route_type = res_route_type r,
      resp_algorithm_used = res_algorithm_used r,
      resp_calculation_time_ms = res_calculation_time_ms r,
      resp_node_count = res_node_count r,
      resp_error_message = res_error_message r\<rparr>"

record HealthResponseModel =
  h_status :: string
  h_initialized :: bool
  h_system_info :: "(string \<times> json) list"
  h_graph_stats :: "(string \<times> json) list option"
  h_errors :: "string list"

datatype http_exception = HTTPException (status_code: nat) (detail: string)

text \<open>
  A call a handler makes on the route calculator, with its arguments. Every handler
  returns, next to its result, the calls it made in order, so that "the calculator is
  not invoked" is the statement that this list is empty.
\<close>

datatype rc_call =
    Call_get_route_statistics
  | Call_calculate_route RouteRequest
  | Call_compare_routes pyfloat pyfloat pyfloat pyfloat "string list" string

text \<open>
  The methods of the absent classes that the handlers call, as functions of the object.
  A method of the route calculator returns the calculator's state after the call next to
  its result, so that a method that recomputes or caches is a function that returns a
  different object. \<open>calibration_stats\<close> is the attribute read off the calibrated
  weights; \<open>sys_version\<close> and \<open>backend_dir\<close> are the two strings of the health report.

  The dict that \<^verbatim>\<open>get_route_statistics\<close> returns is a mutable object, and a component
  may go on holding it (as an attribute, in a cache). The method therefore returns, next
  to the contents of the dict, what a later write into that dict does to the application
  state: \<open>held d st\<close> is the state \<open>st\<close> once the contents of the dict have become
  \<open>d\<close>. For a dict built for the call, which nothing else refers to, \<open>held d st = st\<close>.
\<close>

record 'obj collaborators =
  get_route_statistics ::
    "'obj \<Rightarrow> (exn + (string \<times> json) list
                      \<times> ((string \<times> json) list \<Rightarrow> 'obj app_state \<Rightarrow> 'obj app_state)) \<times> 'obj"
  rc_calculate_route :: "'obj \<Rightarrow> RouteRequest \<Rightarrow> (exn + RouteResult) \<times> 'obj"
  rc_compare_routes ::
    "'obj \<Rightarrow> pyfloat \<Rightarrow> pyfloat \<Rightarrow> pyfloat \<Rightarrow> pyfloat \<Rightarrow> string list \<Rightarrow> string
       \<Rightarrow> (exn + (string \<times> RouteResult) list) \<times> 'obj"
  calibration_stats :: "'obj \<Rightarrow> json"
  sys_version :: string
  backend_dir :: string

definition not_initialized :: http_exception where
  "not_initialized = HTTPException 503 ''System not initialized. Check /health for details.''"

text \<open>\<^verbatim>\<open>GET /health\<close>. The dict of statistics is passed on as it is: nothing is written into it.\<close>

definition health_check ::
  "'obj collaborators \<Rightarrow> 'obj app_state
     \<Rightarrow> (exn + HealthResponseModel) \<times> rc_call list \<times> 'obj app_state" where
  "health_check ops st =
     (let system_info =
            [(''initialization_time_seconds'', JNum (Fin (initialization_time st))),
             (''python_version'', JStr (sys_version ops)),
             (''backend_directory'', JStr (backend_dir ops))];
          probe =
            (case route_calculator st of
               None \<Rightarrow> (None, system_info, [], st)
             | Some rc \<Rightarrow>
                (if initialized st then
                   (case get_route_statistics ops rc of
                      (Inr (stats, held), rc') \<Rightarrow>
                        (Some stats, system_info, [Call_get_route_statistics],
                         st\<lparr>route_calculator := Some rc'\<rparr>)
                    | (Inl e, rc') \<Rightarrow>
                        (None, AList.update ''stats_error'' (JStr (str_exn e)) system_info,
                         [Call_get_route_statistics], st\<lparr>route_calculator := Some rc'\<rparr>))
                 else (None, system_info, [], st)));
          graph_stats = fst probe;
          system_info' = fst (snd probe);
          calls = fst (snd (snd probe));
          st' = snd (snd (snd probe));
          status = (if initialized st' \<and> startup_errors st' = [] then ''healthy''
                    else ''unhealthy'')
      in (Inr \<lparr>h_status = status, h_initialized = initialized st',
                h_system_info = system_info', h_graph_stats = graph_stats,
                h_errors = startup_errors st'\<rparr>,
          calls, st'))"

text \<open>
  The \<^verbatim>\<open>crime_analysis\<close> entry of \<^verbatim>\<open>GET /stats\<close>, from the calibration statistics:
  three counts read with \<^verbatim>\<open>.get(key, 0)\<close> and the size of the crime-type table.
\<close>

definition crime_analysis_entry :: "json \<Rightarrow> exn + json" where
  "crime_analysis_entry calibration =
     bnd (py_get calibration ''crime_analysis'' (JDict [])) (\<lambda>crime_stats.
     bnd (py_get crime_stats ''total_crime_count'' (JInt 0)) (\<lambda>total.
     bnd (py_get crime_stats ''indy_crime_count'' (JInt 0)) (\<lambda>indy.
     bnd (py_get crime_stats ''wl_crime_count'' (JInt 0)) (\<lambda>wl.
     bnd (py_get crime_stats ''crime_type_weights'' (JDict [])) (\<lambda>weights.
     bnd (py_len weights) (\<lambda>n.
     Inr (JDict [(''total_crimes'', total), (''indy_crimes'', indy), (''wl_crimes'', wl),
                 (''crime_types_mapped'', JInt (int n))])))))))"

text \<open>
  \<^verbatim>\<open>GET /stats\<close>. With the flag set and no calculator stored, the method call on
  \<^verbatim>\<open>None\<close> raises \<^verbatim>\<open>AttributeError\<close> inside the \<^verbatim>\<open>try\<close>. \<^verbatim>\<open>stats\<close> is the
  very dict the calculator returned, and the handler writes into it in place, twice:
  \<^verbatim>\<open>stats.update({..})\<close> with three entries whose values are read off the state
  before the write, and \<^verbatim>\<open>stats['crime_analysis'] = {..}\<close> when
  \<^verbatim>\<open>calibrated_weights\<close>, read after the first write, is set. Each write reaches
  whatever holds the dict, through \<open>held\<close>; an exception raised between the two leaves
  the first one done. The dict returned is the response.
\<close>

definition get_system_stats ::
  "'obj collaborators \<Rightarrow> 'obj app_state
     \<Rightarrow> (http_exception + (string \<times> json) list) \<times> rc_call list \<times> 'obj app_state" where
  "get_system_stats ops st =
     (if \<not> initialized st then (Inl not_initialized, [], st)
      else
        (case route_calculator st of
           None \<Rightarrow>
             (Inl (HTTPException 500 (''Error retrieving statistics: ''
                     @ str_exn (no_attribute ''NoneType'' ''get_route_statistics''))), [], st)
         | Some rc \<Rightarrow>
            (let r = get_route_statistics ops rc;
                 st' = st\<lparr>route_calculator := Some (snd r)\<rparr>
             in (case fst r of
                   Inl e \<Rightarrow>
                     (Inl (HTTPException 500 (''Error retrieving statistics: '' @ str_exn e)),
                      [Call_get_route_statistics], st')
                 | Inr (stats0, held) \<Rightarrow>
                    (let stats =
                           AList.update ''startup_errors'' (JList (map JStr (startup_errors st')))
                             (AList.update ''initialized'' (JBool (initialized st'))
                               (AList.update ''initialization_time_seconds''
                                  (JNum (Fin (initialization_time st'))) stats0));
                         st1 = held stats st'
                     in (case calibrated_weights st1 of
                           None \<Rightarrow> (Inr stats, [Call_get_route_statistics], st1)
                         | Some cw \<Rightarrow>
                            (case crime_analysis_entry (calibration_stats ops cw) of
                               Inl e \<Rightarrow>
                                 (Inl (HTTPException 500
                                         (''Error retrieving statistics: '' @ str_exn e)),
                                  [Call_get_route_statistics], st1)
                             | Inr entry \<Rightarrow>
                                (let stats' = AList.update ''crime_analysis'' entry stats
                                 in (Inr stats', [Call_get_route_statistics],
                                     held stats' st1)))))))))"

text \<open>\<^verbatim>\<open>POST /route\<close>.\<close>

definition calculate_route ::
  "'obj collaborators \<Rightarrow> 'obj app_state \<Rightarrow> RouteRequestModel
     \<Rightarrow> (http_exception + RouteResponseModel) \<times> rc_call list \<times> 'obj app_state" where
  "calculate_route ops st request =
     (if \<not> initialized st then (Inl not_initialized, [], st)
      else
        (let internal_request =
               \<lparr>rq_start_lat = start_lat request, rq_start_lon = start_lon request,
                rq_end_lat = end_lat request, rq_end_lon = end_lon request,
                rq_route_type = route_type request, rq_algorithm = algorithm request\<rparr>
         in (case route_calculator st of
               None \<Rightarrow>
                 (Inl (HTTPException 500 (''Route calculation failed: ''
                         @ str_exn (no_attribute ''NoneType'' ''calculate_route''))), [], st)
             | Some rc \<Rightarrow>
                (let r = rc_calculate_route ops rc internal_request;
                     st' = st\<lparr>route_calculator := Some (snd r)\<rparr>
                 in (case fst r of
                       Inl e \<Rightarrow>
                         (Inl (HTTPException 500 (''Route calculation failed: '' @ str_exn e)),
                          [Call_calculate_route internal_request], st')
                     | Inr result \<Rightarrow>
                         (Inr (to_response result),
                          [Call_calculate_route internal_request], st'))))))"

text \<open>
  \<^verbatim>\<open>POST /route/compare\<close>. The response is a dict keyed by route type, filled in the
  order of \<^verbatim>\<open>results.items()\<close>: \<open>AList.update\<close> is Python's \<^verbatim>\<open>d[k] = v\<close> (a new
  key goes to the end, a known key keeps its place and takes the new value).
\<close>

definition compare_routes ::
  "'obj collaborators \<Rightarrow> 'obj app_state \<Rightarrow> RouteCompareRequestModel
     \<Rightarrow> (http_exception + (string \<times> RouteResponseModel) list) \<times> rc_call list \<times> 'obj app_state" where
  "compare_routes ops st request =
     (if \<not> initialized st then (Inl not_initialized, [], st)
      else
        (let route_types =
               (case cmp_route_types request of
                  None \<Rightarrow> [''fastest'', ''safe'', ''bike'', ''safe_bike'']
                | Some ts \<Rightarrow> ts);
             call = Call_compare_routes (cmp_start_lat request) (cmp_start_lon request)
                      (cmp_end_lat request) (cmp_end_lon request) route_types
                      (cmp_algorithm request)
         in (case route_calculator st of
               None \<Rightarrow>
                 (Inl (HTTPException 500 (''Route comparison failed: ''
                         @ str_exn (no_attribute ''NoneType'' ''compare_routes''))), [], st)
             | Some rc \<Rightarrow>
                (let r = rc_compare_routes ops rc (cmp_start_lat request) (cmp_start_lon request)
                           (cmp_end_lat request) (cmp_end_lon request) route_types
                           (cmp_algorithm request);
                     st' = st\<lparr>route_calculator := Some (snd r)\<rparr>
                 in (case fst r of
                       Inl e \<Rightarrow>
                         (Inl (HTTPException 500 (''Route comparison failed: '' @ str_exn e)),
                          [call], st')
                     | Inr results \<Rightarrow>
                         (Inr (fold (\<lambda>item response.
                                       AList.update (fst item) (to_response (snd item)) response)
                                 results []),
                          [call], st'))))))"

section \<open>heatmap.py: load_json_crime_data\<close>

text \<open>
  One row of the table of crime records: the dict the loop builds for an incident. The
  two coordinate columns are JSON values when the rows are built and floats after
  \<^verbatim>\<open>pd.to_numeric\<close>, so their type is a parameter. (\<open>id'\<close> is the key \<^verbatim>\<open>id\<close>.)
\<close>

record 'c crime_record =
  id' :: json
  ccn :: json
  date :: json
  latitude :: 'c
  longitude :: 'c
  city :: json
  state :: json
  address :: json
  incident_type :: json
  parent_incident_type :: json
  parent_incident_type_id :: json
  narrative :: json
  agency_id :: json
  customer_id :: json

text \<open>
  The lines the function prints, in the order of the source: the path being loaded
  (line 14, before the \<^verbatim>\<open>try\<close>); inside the \<^verbatim>\<open>try\<close>, the file loaded, the number
  of incidents found, the structure not found, the keys available (or that the data is
  not a dictionary), no valid records, the number of records processed, the coordinate
  columns, the number of records removed, the number of records kept; and one line in
  each of the three \<^verbatim>\<open>except\<close> clauses, with the path or \<^verbatim>\<open>str(e)\<close>. All but the
  line of the available keys start with a character outside ASCII.
\<close>

datatype message =
    Loading_from string
  | File_loaded
  | Found_incidents nat
  | Structure_not_found
  | Available_keys "string list"
  | Not_a_dictionary
  | No_valid_records
  | Processed_records nat
  | Coordinate_columns
  | Removed_invalid nat
  | Filtered_to nat
  | File_not_found string
  | Invalid_JSON string
  | Error_loading string

text \<open>
  What the function meets outside the module: \<open>load_json path\<close> is
  \<^verbatim>\<open>open(path)\<close> followed by \<^verbatim>\<open>json.load\<close> (\<^verbatim>\<open>FileNotFoundError\<close> for a missing
  file, \<^verbatim>\<open>JSONDecodeError\<close> for malformed text, or any other exception);
  \<open>to_numeric\<close> is pandas' conversion of one cell with \<^verbatim>\<open>errors='coerce'\<close>: the
  number, NaN for what is not a number, or an exception of pandas' own; and
  \<open>print_line\<close> is \<^verbatim>\<open>print\<close> on the standard output of the process, which raises
  (\<^verbatim>\<open>UnicodeEncodeError\<close>, say) when that stream cannot take the text.
\<close>

record heatmap_env =
  load_json :: "string \<Rightarrow> exn + json"
  to_numeric :: "json \<Rightarrow> exn + pyfloat"
  print_line :: "message \<Rightarrow> exn + unit"

text \<open>
  The lookup of \<^verbatim>\<open>data['result']['list']['incidents']\<close> behind the three \<^verbatim>\<open>in\<close>
  tests (\<^verbatim>\<open>and\<close> stops at the first false one), and the \<^verbatim>\<open>len(incidents)\<close> of the
  message printed next. \<open>Inr None\<close> is the \<^verbatim>\<open>else\<close> branch.
\<close>

definition extract_incidents :: "json \<Rightarrow> exn + json option" where
  "extract_incidents data =
     bnd (py_in ''result'' data) (\<lambda>has_result.
     if \<not> has_result then Inr None else
     bnd (py_getitem data ''result'') (\<lambda>result.
     bnd (py_in ''list'' result) (\<lambda>has_list.
     if \<not> has_list then Inr None else
     bnd (py_getitem result ''list'') (\<lambda>lst.
     bnd (py_in ''incidents'' lst) (\<lambda>has_incidents.
     if \<not> has_incidents then Inr None else
     bnd (py_getitem lst ''incidents'') (\<lambda>incidents.
     bnd (py_len incidents) (\<lambda>n.
     Inr (Some incidents))))))))"

text \<open>
  The body of the loop for one incident: \<open>Inr None\<close> when the incident has no
  \<^verbatim>\<open>location\<close> with \<^verbatim>\<open>coordinates\<close> (nothing is appended), the record otherwise.
  \<^verbatim>\<open>coords[0]\<close> is the longitude and \<^verbatim>\<open>coords[1]\<close> the latitude.
\<close>

definition record_of :: "json \<Rightarrow> exn + json crime_record option" where
  "record_of incident =
     bnd (py_in ''location'' incident) (\<lambda>has_location.
     if \<not> has_location then Inr None else
     bnd (py_getitem incident ''location'') (\<lambda>location.
     bnd (py_in ''coordinates'' location) (\<lambda>has_coordinates.
     if \<not> has_coordinates then Inr None else
     bnd (py_getitem location ''coordinates'') (\<lambda>coords.
     bnd (py_index coords 0) (\<lambda>lon.
     bnd (py_index coords 1) (\<lambda>lat.
     bnd (py_get incident ''id'' JNull) (\<lambda>v1.
     bnd (py_get incident ''ccn'' JNull) (\<lambda>v2.
     bnd (py_get incident ''date'' JNull) (\<lambda>v3.
     bnd (py_get incident ''city'' JNull) (\<lambda>v4.
     bnd (py_get incident ''state'' JNull) (\<lambda>v5.
     bnd (py_get incident ''blockizedAddress'' JNull) (\<lambda>v6.
     bnd (py_get incident ''incidentType'' JNull) (\<lambda>v7.
     bnd (py_get incident ''parentIncidentType'' JNull) (\<lambda>v8.
     bnd (py_get incident ''parentIncidentTypeId'' JNull) (\<lambda>v9.
     bnd (py_get incident ''narrative'' JNull) (\<lambda>v10.
     bnd (py_get incident ''agencyId'' JNull) (\<lambda>v11.
     bnd (py_get incident ''customerId'' JNull) (\<lambda>v12.
     Inr (Some \<lparr>id' = v1, ccn = v2, date = v3, latitude = lat, longitude = lon,
                 city = v4, state = v5, address = v6, incident_type = v7,
                 parent_incident_type = v8, parent_incident_type_id = v9,
                 narrative = v10, agency_id = v11, customer_id = v12\<rparr>)))))))))))))))))))"

text \<open>The loop \<^verbatim>\<open>for incident in incidents\<close>: the records in order, or the first exception.\<close>

fun collect_records :: "json list \<Rightarrow> exn + json crime_record list" where
  "collect_records [] = Inr []"
| "collect_records (incident # rest) =
     bnd (record_of incident) (\<lambda>r.
     bnd (collect_records rest) (\<lambda>rs.
     Inr (case r of None \<Rightarrow> rs | Some x \<Rightarrow> x # rs)))"

text \<open>A column converted cell by cell: the converted cells, or the first exception.\<close>

fun convert_column :: "('a \<Rightarrow> exn + 'b) \<Rightarrow> 'a list \<Rightarrow> exn + 'b list" where
  "convert_column f [] = Inr []"
| "convert_column f (x # xs) =
     bnd (f x) (\<lambda>y. bnd (convert_column f xs) (\<lambda>ys. Inr (y # ys)))"

text \<open>A row with its two coordinate cells replaced.\<close>

definition with_coordinates :: "'a crime_record \<Rightarrow> 'b \<Rightarrow> 'b \<Rightarrow> 'b crime_record" where
  "with_coordinates r lat lon =
     \<lparr>id' = id' r, ccn = ccn r, date = date r, latitude = lat, longitude = lon,
      city = city r, state = state r, address = address r,
      incident_type = incident_type r, parent_incident_type = parent_incident_type r,
      parent_incident_type_id = parent_incident_type_id r, narrative = narrative r,
      agency_id = agency_id r, customer_id = customer_id r\<rparr>"

text \<open>\<^verbatim>\<open>df.dropna(subset=['latitude', 'longitude'])\<close> keeps the rows without a NaN coordinate.\<close>

definition dropna :: "pyfloat crime_record list \<Rightarrow> pyfloat crime_record list" where
  "dropna df = filter (\<lambda>r. latitude r \<noteq> NaN \<and> longitude r \<noteq> NaN) df"

text \<open>The mask of the range filter.\<close>

definition in_window :: "pyfloat crime_record \<Rightarrow> bool" where
  "in_window r \<longleftrightarrow>
     fge (latitude r) (Fin 20) \<and> fle (latitude r) (Fin 55) \<and>
     fge (longitude r) (Fin (- 140)) \<and> fle (longitude r) (Fin (- 60))"

text \<open>
  The \<^verbatim>\<open>try\<close> block: \<open>Inl\<close> an exception raised in it, \<open>Inr None\<close> a
  \<^verbatim>\<open>return None\<close>, \<open>Inr (Some ..)\<close> the tuple returned. Every \<^verbatim>\<open>print\<close> is a
  step that may raise. The number of incidents printed is the \<^verbatim>\<open>len(incidents)\<close>
  that \<open>extract_incidents\<close> has already evaluated, taken here for the message.
  \<^verbatim>\<open>initial_count\<close> is the number of rows before the cleaning; both later tests
  compare with it.
\<close>

definition load_try ::
  "heatmap_env \<Rightarrow> string
     \<Rightarrow> exn + (pyfloat crime_record list \<times> string \<times> string \<times> string \<times> string) option" where
  "load_try env json_file_path =
     bnd (load_json env json_file_path) (\<lambda>data.
     bnd (print_line env File_loaded) (\<lambda>u.
     bnd (extract_incidents data) (\<lambda>found.
     (case found of
        None \<Rightarrow>
          bnd (print_line env Structure_not_found) (\<lambda>u.
          bnd (print_line env (case data of JDict d \<Rightarrow> Available_keys (map fst d)
                                 | _ \<Rightarrow> Not_a_dictionary)) (\<lambda>u.
          Inr None))
      | Some incidents \<Rightarrow>
          bnd (py_len incidents) (\<lambda>n.
          bnd (print_line env (Found_incidents n)) (\<lambda>u.
          bnd (py_iter incidents) (\<lambda>items.
          bnd (collect_records items) (\<lambda>records.
          if length records = 0 then bnd (print_line env No_valid_records) (\<lambda>u. Inr None) else
          bnd (print_line env (Processed_records (length records))) (\<lambda>u.
          bnd (print_line env Coordinate_columns) (\<lambda>u.
          bnd (convert_column (to_numeric env) (map latitude records)) (\<lambda>lats.
          bnd (convert_column (to_numeric env) (map longitude records)) (\<lambda>lons.
          let df = map (\<lambda>(r, lat, lon). with_coordinates r lat lon)
                     (zip records (zip lats lons));
              initial_count = length df;
              df = dropna df
          in
          bnd (if length df < initial_count
               then print_line env (Removed_invalid (initial_count - length df))
               else Inr ()) (\<lambda>u.
          let df = filter in_window df
          in
          bnd (if length df < initial_count then print_line env (Filtered_to (length df))
               else Inr ()) (\<lambda>u.
          Inr (Some (df, ''latitude'', ''longitude'', ''parent_incident_type'', ''date''))))))))))))))))"

text \<open>
  \<^verbatim>\<open>load_json_crime_data\<close>: the \<^verbatim>\<open>print\<close> of line 14, which stands before the
  \<^verbatim>\<open>try\<close>, then the \<^verbatim>\<open>try\<close> block and its three \<^verbatim>\<open>except\<close> clauses, tried in the
  source's order; each prints a line and returns \<^verbatim>\<open>None\<close>. \<open>Inl\<close> is an exception
  that reaches the caller: that of the first \<^verbatim>\<open>print\<close>, or that of a \<^verbatim>\<open>print\<close>
  inside an \<^verbatim>\<open>except\<close> clause.
\<close>

definition load_json_crime_data ::
  "heatmap_env \<Rightarrow> string
     \<Rightarrow> exn + (pyfloat crime_record list \<times> string \<times> string \<times> string \<times> string) option" where
  "load_json_crime_data env json_file_path =
     bnd (print_line env (Loading_from json_file_path)) (\<lambda>u.
     (case load_try env json_file_path of
        Inr r \<Rightarrow> Inr r
      | Inl (FileNotFoundError m) \<Rightarrow>
          bnd (print_line env (File_not_found json_file_path)) (\<lambda>u. Inr None)
      | Inl (JSONDecodeError m) \<Rightarrow>
          bnd (print_line env (Invalid_JSON m)) (\<lambda>u. Inr None)
      | Inl e \<Rightarrow>
          bnd (print_line env (Error_loading (str_exn e))) (\<lambda>u. Inr None)))"

section \<open>The route calculator's comparison, from the specification\<close>

text \<open>
  Modelled from the spec: \<^verbatim>\<open>RouteCalculator.compare_routes\<close>, whose module
  \<^verbatim>\<open>route_calculator.py\<close> is not among the sources. A failure of snapping or of the
  search becomes "a RouteResult carrying only an error message": no path, zero metrics,
  the route type and algorithm asked for, and the message.
\<close>

definition spec_error_result :: "string \<Rightarrow> string \<Rightarrow> string \<Rightarrow> RouteResult" where
  "spec_error_result rt alg msg =
     \<lparr>res_route = [], res_distance_meters = Fin 0, res_estimated_time_minutes = Fin 0,
      res_safety_score = Fin 0, res_bike_coverage_percent = Fin 0, res_route_type = rt,
      res_algorithm_used = alg, res_calculation_time_ms = Fin 0, res_node_count = 0,
      res_error_message = Some msg\<rparr>"

text \<open>
  Modelled from the spec: the entry of one route type. \<open>snap\<close> is step 1 (node
  snapping, which fails with a message when the coordinate is out of coverage) and
  \<open>search\<close> stands for steps 2 to 5 on the variant of the route type (search and
  reduction, failing with a message when no route is found); a success carries no
  error message.
\<close>

definition spec_route_entry ::
  "(pyfloat \<Rightarrow> pyfloat \<Rightarrow> string + 'n) \<Rightarrow> (string \<Rightarrow> string \<Rightarrow> 'n \<Rightarrow> 'n \<Rightarrow> string + RouteResult)
     \<Rightarrow> pyfloat \<Rightarrow> pyfloat \<Rightarrow> pyfloat \<Rightarrow> pyfloat \<Rightarrow> string \<Rightarrow> string \<Rightarrow> RouteResult" where
  "spec_route_entry snap search slat slon elat elon alg rt =
     (case snap slat slon of
        Inl msg \<Rightarrow> spec_error_result rt alg msg
      | Inr s \<Rightarrow>
         (case snap elat elon of
            Inl msg \<Rightarrow> spec_error_result rt alg msg
          | Inr t \<Rightarrow>
             (case search rt alg s t of
                Inl msg \<Rightarrow> spec_error_result rt alg msg
              | Inr r \<Rightarrow> r\<lparr>res_error_message := None\<rparr>)))"

text \<open>
  Modelled from the spec: \<^verbatim>\<open>compare_routes(start, end, route_types, algorithm) ->
  mapping(route_type -> RouteResult)\<close>, one entry stored per requested route type, in
  the order requested; the mapping is a dict, so storing under a key it already has
  replaces the entry.
\<close>

definition spec_compare_routes ::
  "(pyfloat \<Rightarrow> pyfloat \<Rightarrow> string + 'n) \<Rightarrow> (string \<Rightarrow> string \<Rightarrow> 'n \<Rightarrow> 'n \<Rightarrow> string + RouteResult)
     \<Rightarrow> pyfloat \<Rightarrow> pyfloat \<Rightarrow> pyfloat \<Rightarrow> pyfloat \<Rightarrow> string list \<Rightarrow> string
     \<Rightarrow> (string \<times> RouteResult) list" where
  "spec_compare_routes snap search slat slon elat elon route_types alg =
     fold (\<lambda>rt results.
             AList.update rt (spec_route_entry snap search slat slon elat elon alg rt) results)
       route_types []"

text \<open>A response entry that carries only an error message, and one that is a success.\<close>

definition error_only :: "RouteResponseModel \<Rightarrow> bool" where
  "error_only r \<longleftrightarrow>
     resp_error_message r \<noteq> None \<and> resp_route r = [] \<and> resp_distance_meters r = Fin 0 \<and>
     resp_estimated_time_minutes r = Fin 0 \<and> resp_safety_score r = Fin 0 \<and>
     resp_bike_coverage_percent r = Fin 0 \<and> resp_node_count r = 0"

definition successful :: "RouteResponseModel \<Rightarrow> bool" where
  "successful r \<longleftrightarrow> resp_error_message r = None"

section \<open>The route search, from the specification\<close>

text \<open>
  Modelled from the spec: a weighted graph variant, as the list of its directed edges
  (source node id, target node id, traversal cost). The search of the route calculator
  (\<^verbatim>\<open>route_calculator.py\<close>) is not among the sources; the costs, floats there, are
  real numbers here.
\<close>

type_synonym edge = "nat \<times> nat \<times> real"

type_synonym graph = "edge list"

text \<open>
  Modelled from the spec: an entry of the frontier, a priority queue: its key (the
  accumulated cost, plus the heuristic of the node for A*), the node, the accumulated
  cost and the edges taken to reach the node, the last one first.
\<close>

type_synonym entry = "real \<times> nat \<times> real \<times> edge list"

text \<open>
  Modelled from the spec: the order of the queue, "keyed by accumulated cost, ties
  broken by smaller node id", and the entry popped: the first one that no other entry
  precedes.
\<close>

definition before :: "entry \<Rightarrow> entry \<Rightarrow> bool" where
  "before a b \<longleftrightarrow> fst a < fst b \<or> (fst a = fst b \<and> fst (snd a) \<le> fst (snd b))"

fun pick :: "entry \<Rightarrow> entry list \<Rightarrow> entry" where
  "pick e [] = e"
| "pick e (x # xs) = pick (if before e x then e else x) xs"

definition pop :: "entry list \<Rightarrow> entry" where
  "pop frontier = pick (hd frontier) (tl frontier)"

text \<open>
  Modelled from the spec: the entries pushed when node \<open>u\<close>, reached at cost \<open>d\<close>
  along \<open>p\<close>, is expanded: one per edge leaving \<open>u\<close>.
\<close>

definition expand :: "graph \<Rightarrow> (nat \<Rightarrow> real) \<Rightarrow> nat \<Rightarrow> real \<Rightarrow> edge list \<Rightarrow> entry list" where
  "expand g h u d p =
     map (\<lambda>(a, v, c). (d + c + h v, v, d + c, (a, v, c) # p))
       (filter (\<lambda>e. fst e = u) g)"

text \<open>
  Modelled from the spec: the search loop with its frontier and visited set. "If the
  frontier empties before reaching the goal, fail with NoRouteFoundError" (\<open>None\<close>);
  an entry of a node already visited is dropped; "search ends when the goal node is
  popped from the frontier", with the route in travel order and its accumulated cost;
  any other node is marked visited and expanded. The second component lists the nodes
  visited (popped and not dropped, the goal included), the last one first; its length
  is the "node count visited".
\<close>

function route_search ::
  "graph \<Rightarrow> (nat \<Rightarrow> real) \<Rightarrow> nat \<Rightarrow> entry list \<Rightarrow> nat list
     \<Rightarrow> (edge list \<times> real) option \<times> nat list" where
  "route_search g h goal frontier visited =
     (if frontier = [] then (None, visited)
      else
        (case pop frontier of (k, u, d, p) \<Rightarrow>
           (if u \<in> set visited then
              route_search g h goal (remove1 (k, u, d, p) frontier) visited
            else if u = goal then (Some (rev p, d), u # visited)
            else
              route_search g h goal (remove1 (k, u, d, p) frontier @ expand g h u d p)
                (u # visited))))"
  by pat_completeness auto
termination
proof (relation "measure (\<lambda>(g, h, goal, frontier, visited).
          length frontier + length (filter (\<lambda>e. fst e \<notin> set visited) g))", goal_cases)
  case 1
  then show ?case by simp
next
  case (2 g h goal frontier visited k rest1 u rest2 d p)
  have "pick e xs \<in> set (e # xs)" for e :: entry and xs
    by (induction xs arbitrary: e) auto
  then have "pop frontier \<in> set frontier"
    using 2(1) by (cases frontier) (auto simp: pop_def)
  then have "(k, u, d, p) \<in> set frontier" using 2 by simp
  moreover have "x \<in> set xs \<Longrightarrow> Suc (length (remove1 x xs)) = length xs" for x :: entry and xs
    by (induction xs) auto
  ultimately show ?case by fastforce
next
  case (3 g h goal frontier visited k rest1 u rest2 d p)
  have "pick e xs \<in> set (e # xs)" for e :: entry and xs
    by (induction xs arbitrary: e) auto
  then have "pop frontier \<in> set frontier"
    using 3(1) by (cases frontier) (auto simp: pop_def)
  then have "(k, u, d, p) \<in> set frontier" using 3 by simp
  moreover have "x \<in> set xs \<Longrightarrow> Suc (length (remove1 x xs)) = length xs" for x :: entry and xs
    by (induction xs) auto
  ultimately have shorter: "Suc (length (remove1 (k, u, d, p) frontier)) = length frontier"
    by blast
  have split: "length (filter (\<lambda>e. fst e \<notin> set visited) g)
       = length (filter (\<lambda>e. fst e \<notin> set (u # visited)) g) + length (filter (\<lambda>e. fst e = u) g)"
    using 3 by (induction g) auto
  show ?case using shorter split by (simp add: expand_def)
qed

declare route_search.simps [simp del]

text \<open>
  Modelled from the spec: A* is the search with the heuristic added to the keys,
  Dijkstra the same search on the same queue with no heuristic.
\<close>

definition astar ::
  "graph \<Rightarrow> (nat \<Rightarrow> real) \<Rightarrow> nat \<Rightarrow> nat \<Rightarrow> (edge list \<times> real) option \<times> nat list" where
  "astar g h start goal = route_search g h goal [(h start, start, 0, [])] []"

definition dijkstra :: "graph \<Rightarrow> nat \<Rightarrow> nat \<Rightarrow> (edge list \<times> real) option \<times> nat list" where
  "dijkstra g start goal = route_search g (\<lambda>u. 0) goal [(0, start, 0, [])] []"

text \<open>
  Modelled from the spec: the heuristic of A*, "great-circle distance to goal scaled by
  the minimum possible speed in the variant". \<open>gc\<close> is the great-circle distance
  between two nodes and \<open>scale\<close> the factor.
\<close>

definition heuristic :: "real \<Rightarrow> (nat \<Rightarrow> nat \<Rightarrow> real) \<Rightarrow> nat \<Rightarrow> nat \<Rightarrow> real" where
  "heuristic scale gc goal u = scale * gc u goal"

text \<open>A route from \<open>s\<close> to \<open>t\<close>: a chain of edges of the graph; and its total cost.\<close>

fun is_route :: "graph \<Rightarrow> nat \<Rightarrow> edge list \<Rightarrow> nat \<Rightarrow> bool" where
  "is_route g s [] t = (s = t)"
| "is_route g s (e # es) t = (e \<in> set g \<and> fst e = s \<and> is_route g (fst (snd e)) es t)"

definition total_cost :: "edge list \<Rightarrow> real" where
  "total_cost route = sum_list (map (\<lambda>e. snd (snd e)) route)"

text \<open>
  What a correct search returns: a route of the graph with its total cost, no other
  route being cheaper; or nothing when there is no route.
\<close>

definition cheapest :: "graph \<Rightarrow> nat \<Rightarrow> nat \<Rightarrow> (edge list \<times> real) option \<Rightarrow> bool" where
  "cheapest g s t res \<longleftrightarrow>
     (case res of
        None \<Rightarrow> \<not> (\<exists>r. is_route g s r t)
      | Some (route, d) \<Rightarrow>
          is_route g s route t \<and> d = total_cost route \<and> (\<forall>r. is_route g s r t \<longrightarrow> d \<le> total_cost r))"

text \<open>A heuristic that no edge makes drop by more than its cost.\<close>

definition consistent :: "graph \<Rightarrow> (nat \<Rightarrow> real) \<Rightarrow> bool" where
  "consistent g h \<longleftrightarrow> (\<forall>(a, v, c)\<in>set g. h a \<le> c + h v)"

text \<open>
  The invariant of the search from \<open>s\<close>: every entry of the frontier is a route to its
  node with its cost and key; the start is visited or waits in the frontier; every edge
  that leaves a visited node leads to a visited node or to a node with an entry no more
  expensive than any route through that edge; the goal is not visited.
\<close>

definition search_inv ::
  "graph \<Rightarrow> (nat \<Rightarrow> real) \<Rightarrow> nat \<Rightarrow> nat \<Rightarrow> entry list \<Rightarrow> nat list \<Rightarrow> bool" where
  "search_inv g h s goal frontier visited \<longleftrightarrow>
     (\<forall>(k, u, d, p)\<in>set frontier. k = d + h u \<and> is_route g s (rev p) u \<and> d = total_cost p)
   \<and> (s \<in> set visited \<or> (\<exists>e\<in>set frontier. fst (snd e) = s \<and> fst e \<le> h s))
   \<and> (\<forall>(a, v, c)\<in>set g. a \<in> set visited \<longrightarrow>
          v \<in> set visited
        \<or> (\<exists>e\<in>set frontier. fst (snd e) = v
              \<and> (\<forall>r. is_route g s r a \<longrightarrow> fst e \<le> total_cost r + c + h v)))
   \<and> goal \<notin> set visited"

section \<open>Concrete collaborators for the examples\<close>

text \<open>
  A start-up in which every step succeeds, with the objects numbered 1 to 6, and the
  collaborators of an initialized system. They are the inputs of the closed examples.
\<close>

definition example_env :: "nat init_env" where
  "example_env =
     \<lparr>indy_csv_exists = True, indy_csv_path = ''IndianapolisCrime.csv'',
      wl_json_exists = True, wl_json_path = ''WLCrime.json'',
      analyze_crime_data = Inr 1, crime_count_logged = Inr (),
      analyze_osm_networks = Inr 2, osm_count_logged = Inr (),
      master_calibration = Inr 3, new_graph_builder = Inr 5,
      export_network_for_routing = (\<lambda>osm. Inr (Some 4)), number_of_nodes = (\<lambda>g. Inr 10),
      create_weighted_graphs = (\<lambda>gb g cw ca. Inr gb), graph_count_logged = Inr (),
      validate_graphs = (\<lambda>gb. Inr ()), rc_initialize = (\<lambda>gb ca. Inr (6, True)),
      elapsed = 2\<rparr>"

definition example_state :: "nat app_state" where
  "example_state =
     \<lparr>initialized = True, crime_analyzer = Some 1, osm_analyzer = Some 2,
      graph_builder = Some 5, route_calculator = Some 6, calibrated_weights = Some 3,
      initialization_time = 2, startup_errors = []\<rparr>"

definition example_result :: "string \<Rightarrow> string \<Rightarrow> RouteResult" where
  "example_result rt alg =
     \<lparr>res_route = [[Fin 40, Fin (- 86)], [Fin 41, Fin (- 87)]], res_distance_meters = Fin 1500,
      res_estimated_time_minutes = Fin 18, res_safety_score = Fin 80,
      res_bike_coverage_percent = Fin 25, res_route_type = rt, res_algorithm_used = alg,
      res_calculation_time_ms = Fin 3, res_node_count = 2, res_error_message = None\<rparr>"

text \<open>
  Snapping that covers the northern hemisphere only, and a search that finds a route
  for every type but \<^verbatim>\<open>bike\<close>.
\<close>

definition example_snap :: "pyfloat \<Rightarrow> pyfloat \<Rightarrow> string + nat" where
  "example_snap lat lon = (if fle (Fin 0) lat then Inr 7 else Inl ''Out of coverage'')"

definition example_search :: "string \<Rightarrow> string \<Rightarrow> nat \<Rightarrow> nat \<Rightarrow> string + RouteResult" where
  "example_search rt alg s t =
     (if rt = ''bike'' then Inl ''No route found'' else Inr (example_result rt alg))"

definition example_ops :: "nat collaborators" where
  "example_ops =
     \<lparr>get_route_statistics = (\<lambda>rc. (Inr ([(''graphs'', JInt 4)], (\<lambda>d st. st)), rc)),
      rc_calculate_route =
        (\<lambda>rc rq. (Inr (example_result (rq_route_type rq) (rq_algorithm rq)), rc)),
      rc_compare_routes =
        (\<lambda>rc slat slon elat elon rts alg.
           (Inr (map (\<lambda>rt. (rt, example_result rt alg)) rts), rc)),
      calibration_stats =
        (\<lambda>cw. JDict [(''crime_analysis'', JDict [(''total_crime_count'', JInt 12)])]),
      sys_version = ''3.11'', backend_dir = ''/srv/backend''\<rparr>"

text \<open>
  A route calculator that keeps its statistics in a dict and hands that very dict out:
  the calculator is the dict. The query itself changes nothing; a write into the dict
  handed out is a write into the calculator. The calibrated weights are the dict of
  their statistics.
\<close>

definition example_cached_ops :: "(string \<times> json) list collaborators" where
  "example_cached_ops =
     \<lparr>get_route_statistics =
        (\<lambda>rc. (Inr (rc, (\<lambda>d st. st\<lparr>route_calculator := Some d\<rparr>)), rc)),
      rc_calculate_route = (\<lambda>rc rq. (Inl (RuntimeError ''No graph''), rc)),
      rc_compare_routes = (\<lambda>rc slat slon elat elon rts alg. (Inr [], rc)),
      calibration_stats = JDict,
      sys_version = ''3.11'', backend_dir = ''/srv/backend''\<rparr>"

definition example_cached_state :: "(string \<times> json) list app_state" where
  "example_cached_state =
     \<lparr>initialized = True, crime_analyzer = None, osm_analyzer = None,
      graph_builder = None, route_calculator = Some [(''graphs'', JInt 4)],
      calibrated_weights = Some [(''crime_analysis'', JDict [(''total_crime_count'', JInt 12)])],
      initialization_time = 2, startup_errors = []\<rparr>"

text \<open>The same collaborators, with the comparison of the specification.\<close>

definition example_spec_ops :: "nat collaborators" where
  "example_spec_ops =
     example_ops\<lparr>rc_compare_routes :=
        (\<lambda>rc slat slon elat elon rts alg.
           (Inr (spec_compare_routes example_snap example_search slat slon elat elon rts alg),
            rc))\<rparr>"

definition example_route_request :: RouteRequestModel where
  "example_route_request =
     \<lparr>start_lat = Fin 40, start_lon = Fin (- 86), end_lat = Fin 41, end_lon = Fin (- 87),
      route_type = ''safe'', algorithm = ''astar''\<rparr>"

definition example_request :: "string list option \<Rightarrow> RouteCompareRequestModel" where
  "example_request rts =
     \<lparr>cmp_start_lat = Fin 40, cmp_start_lon = Fin (- 86), cmp_end_lat = Fin 41,
      cmp_end_lon = Fin (- 87), cmp_route_types = rts, cmp_algorithm = ''dijkstra''\<rparr>"

text \<open>
  Files for the examples of the loader: a missing file, malformed JSON, a document
  without the nested structure, one whose only incident has no location, one whose
  incident has a single coordinate, one whose incident lies outside the window of
  coordinates, and (any other path) a document of five incidents.
  The conversion maps an int or float to itself and anything else to NaN, and every
  line can be printed. \<open>example_ascii_stdout\<close> is a standard output that takes ASCII
  only.
\<close>

definition example_to_numeric :: "json \<Rightarrow> exn + pyfloat" where
  "example_to_numeric v =
     (case v of JInt n \<Rightarrow> Inr (Fin (of_int n)) | JNum f \<Rightarrow> Inr f | _ \<Rightarrow> Inr NaN)"

definition example_document :: "json list \<Rightarrow> json" where
  "example_document incidents =
     JDict [(''result'', JDict [(''list'', JDict [(''incidents'', JList incidents)])])]"

definition example_incident :: "int \<Rightarrow> json \<Rightarrow> json" where
  "example_incident n coords =
     JDict [(''id'', JInt n), (''parentIncidentType'', JStr ''Theft''),
            (''location'', JDict [(''type'', JStr ''Point''), (''coordinates'', coords)])]"

definition example_files :: heatmap_env where
  "example_files =
     \<lparr>load_json = (\<lambda>path.
        if path = ''missing.json'' then Inl (FileNotFoundError ''No such file or directory'')
        else if path = ''broken.json'' then Inl (JSONDecodeError ''Expecting value'')
        else if path = ''other.json'' then Inr (JDict [(''result'', JDict [(''count'', JInt 0)])])
        else if path = ''empty.json'' then
          Inr (example_document [JDict [(''id'', JInt 1)]])
        else if path = ''short.json'' then
          Inr (example_document [example_incident 1 (JList [JInt (- 87)])])
        else if path = ''far.json'' then
          Inr (example_document [example_incident 1 (JList [JInt 0, JInt 0])])
        else
          Inr (example_document
                [example_incident 1 (JList [JInt (- 87), JInt 40]),
                 JDict [(''id'', JInt 2)],
                 example_incident 3 (JList [JStr ''n/a'', JNull]),
                 example_incident 4 (JList [JInt 0, JInt 0]),
                 example_incident 5 (JList [JNum (Fin (- 86.5)), JNum (Fin 39.75)])])),
      to_numeric = example_to_numeric,
      print_line = (\<lambda>m. Inr ())\<rparr>"

definition example_ascii_stdout :: "message \<Rightarrow> exn + unit" where
  "example_ascii_stdout m =
     (case m of
        Available_keys ks \<Rightarrow> Inr ()
      | Not_a_dictionary \<Rightarrow> Inr ()
      | _ \<Rightarrow> Inl (UnicodeEncodeError ''ordinal not in range(128)''))"

text \<open>
  Two variants of five nodes on a line, for the searches from node 0 to node 3; the
  cost of an edge is its length and the distance between two nodes is the distance of
  their positions. In the first, node 0 is at position 2, node 5 at 1, and nodes 3 and
  4 both at 0. In the second, node 4 is at position 3, behind the start, and no node
  but the goal is at the goal's position.
\<close>

definition example_graph :: graph where
  "example_graph = [(0, 5, 1), (5, 3, 1), (0, 4, 2)]"

definition example_position :: "nat \<Rightarrow> real" where
  "example_position u = (if u = 0 then 2 else if u = 5 then 1 else 0)"

definition example_distance :: "nat \<Rightarrow> nat \<Rightarrow> real" where
  "example_distance u v = \<bar>example_position u - example_position v\<bar>"

definition example_wide_graph :: graph where
  "example_wide_graph = [(0, 5, 1), (5, 3, 1), (0, 4, 1)]"

definition example_wide_position :: "nat \<Rightarrow> real" where
  "example_wide_position u = (if u = 3 then 0 else if u = 0 then 2 else if u = 4 then 3 else 1)"

definition example_wide_distance :: "nat \<Rightarrow> nat \<Rightarrow> real" where
  "example_wide_distance u v = \<bar>example_wide_position u - example_wide_position v\<bar>"

section \<open>Request validation\<close>

lemma validate_latitude_ok: "validate_latitude v = Inr v \<longleftrightarrow> lat_ok v"
  by (cases v) (simp_all add: validate_latitude_def lat_ok_def)

lemma validate_longitude_ok: "validate_longitude v = Inr v \<longleftrightarrow> lon_ok v"
  by (cases v) (simp_all add: validate_longitude_def lon_ok_def)

lemma errors_of_validate_latitude: "errors_of (validate_latitude v) = [] \<longleftrightarrow> lat_ok v"
  by (cases v) (simp_all add: validate_latitude_def lat_ok_def)

lemma errors_of_validate_longitude: "errors_of (validate_longitude v) = [] \<longleftrightarrow> lon_ok v"
  by (cases v) (simp_all add: validate_longitude_def lon_ok_def)

lemma errors_of_validate_route_type:
  "errors_of (validate_route_type v) = [] \<longleftrightarrow> v \<in> {''fastest'', ''safe'', ''bike'', ''safe_bike''}"
  by (simp add: validate_route_type_def valid_types_def)

lemma errors_of_validate_algorithm:
  "errors_of (validate_algorithm v) = [] \<longleftrightarrow> v \<in> {''dijkstra'', ''astar''}"
  by (simp add: validate_algorithm_def valid_algorithms_def)

text \<open>
  The single-route model accepts exactly the requests of the specification: both
  latitudes in [-90, 90], both longitudes in [-180, 180], a route type among the four
  and an algorithm among the two. (The half of claim C2 that the code keeps.)
\<close>

lemma RouteRequestModel_accepts_iff:
  "(\<exists>m. new_RouteRequestModel slat slon elat elon rt (Some alg) = Inr m) \<longleftrightarrow>
     lat_ok slat \<and> lon_ok slon \<and> lat_ok elat \<and> lon_ok elon
     \<and> rt \<in> {''fastest'', ''safe'', ''bike'', ''safe_bike''}
     \<and> alg \<in> {''dijkstra'', ''astar''}"
  unfolding new_RouteRequestModel_def Let_def
  using errors_of_validate_latitude errors_of_validate_longitude
    errors_of_validate_route_type [of rt] errors_of_validate_algorithm [of alg]
  by (auto simp del: insert_iff)

text \<open>
  Claim C2. The claim asks that every request accepted at the API boundary, the
  comparison request included, has its algorithm among dijkstra and astar and its route
  types among the four. \<^verbatim>\<open>RouteCompareRequestModel\<close> has no validator for either
  field: the comparison request below, with an unknown algorithm and an unknown route
  type, is accepted, while \<^verbatim>\<open>RouteRequestModel\<close> rejects the same algorithm and
  route type with both messages.
\<close>

theorem compare_request_accepts_unknown_algorithm:
  "new_RouteCompareRequestModel (Fin 40) (Fin (- 86)) (Fin 41) (Fin (- 87))
       (Some [''teleport'']) (Some ''bogus'')
     = Inr \<lparr>cmp_start_lat = Fin 40, cmp_start_lon = Fin (- 86), cmp_end_lat = Fin 41,
            cmp_end_lon = Fin (- 87), cmp_route_types = Some [''teleport''],
            cmp_algorithm = ''bogus''\<rparr>
   \<and> new_RouteRequestModel (Fin 40) (Fin (- 86)) (Fin 41) (Fin (- 87))
       ''teleport'' (Some ''bogus'')
     = Inl [''Route type must be one of: ['fastest', 'safe', 'bike', 'safe_bike']'',
            ''Algorithm must be one of: ['dijkstra', 'astar']'']"
  by (simp add: new_RouteCompareRequestModel_def new_RouteRequestModel_def
      validate_latitude_def validate_longitude_def validate_route_type_def
      validate_algorithm_def valid_types_def valid_algorithms_def)

section \<open>Start-up\<close>

lemma init_graphs_startup_errors:
  "startup_errors (fst (init_graphs env st ca cw gb g)) = startup_errors st"
  by (auto simp: init_graphs_def step_def Let_def split: sum.splits option.splits)

lemma init_try_startup_errors: "startup_errors (fst (init_try env st)) = startup_errors st"
  by (auto simp: init_try_def step_def Let_def init_graphs_startup_errors split: sum.splits)

lemma init_graphs_success_initialized:
  "snd (init_graphs env st ca cw gb g) = None \<Longrightarrow> initialized (fst (init_graphs env st ca cw gb g))"
  by (auto simp: init_graphs_def step_def Let_def split: sum.splits option.splits if_splits)

lemma init_try_success_initialized:
  "snd (init_try env st) = None \<Longrightarrow> initialized (fst (init_try env st))"
  by (auto simp: init_try_def step_def Let_def init_graphs_success_initialized
      split: sum.splits if_splits)

text \<open>When no step raises, the flag is set and the error list is as it was.\<close>

lemma initialize_system_success:
  assumes "snd (init_try env st) = None"
  shows "\<exists>st'. initialize_system env st = Inr st' \<and> initialized st' \<and>
           startup_errors st' = startup_errors st"
proof -
  obtain st1 where st1: "init_try env st = (st1, None)"
    using assms by (cases "init_try env st") auto
  then show ?thesis
    using init_try_startup_errors [of env st] init_try_success_initialized [of env st]
    by (simp add: initialize_system_def)
qed

text \<open>
  Claim C3. Whatever exception \<open>e\<close> leaves the \<^verbatim>\<open>try\<close> block of
  \<^verbatim>\<open>initialize_system\<close>, the function returns (it does not raise), the flag
  \<^verbatim>\<open>initialized\<close> of the state it leaves is false, and the error list is the old one
  with the message \<^verbatim>\<open>System initialization failed: \<close> followed by \<^verbatim>\<open>str(e)\<close>
  appended.
\<close>

theorem initialize_system_catches:
  assumes "snd (init_try env st) = Some e"
  shows "\<exists>st'. initialize_system env st = Inr st' \<and> \<not> initialized st' \<and>
           startup_errors st' =
             startup_errors st @ [''System initialization failed: '' @ str_exn e]"
proof -
  obtain st1 where st1: "init_try env st = (st1, Some e)"
    using assms by (cases "init_try env st") auto
  have "startup_errors st1 = startup_errors st"
    using init_try_startup_errors [of env st] st1 by simp
  then show ?thesis
    by (simp add: initialize_system_def st1)
qed

text \<open>
  The five failures the claim names, each on the start-up that otherwise succeeds: a
  missing data file, empty source data, a calibration failure, a graph-build failure and
  a route calculator whose \<^verbatim>\<open>initialize\<close> returns false.
\<close>

theorem initialize_system_catches_witness:
  "(\<exists>st'. initialize_system (example_env\<lparr>wl_json_exists := False\<rparr>) app_state_initial = Inr st'
       \<and> \<not> initialized st'
       \<and> startup_errors st' =
           [''System initialization failed: West Lafayette crime data not found: WLCrime.json''])
   \<and> (\<exists>st'. initialize_system
               (example_env\<lparr>analyze_crime_data := Inl (ValueError ''No crime records'')\<rparr>)
               app_state_initial = Inr st'
       \<and> \<not> initialized st'
       \<and> startup_errors st' = [''System initialization failed: No crime records''])
   \<and> (\<exists>st'. initialize_system
               (example_env\<lparr>master_calibration := Inl (OtherException ''Calibration failed'')\<rparr>)
               app_state_initial = Inr st'
       \<and> \<not> initialized st'
       \<and> startup_errors st' = [''System initialization failed: Calibration failed''])
   \<and> (\<exists>st'. initialize_system
               (example_env\<lparr>create_weighted_graphs := (\<lambda>gb g cw ca. Inl (KeyError ''length''))\<rparr>)
               app_state_initial = Inr st'
       \<and> \<not> initialized st'
       \<and> startup_errors st' = [''System initialization failed: length''])
   \<and> (\<exists>st'. initialize_system (example_env\<lparr>rc_initialize := (\<lambda>gb ca. Inr (6, False))\<rparr>)
               app_state_initial = Inr st'
       \<and> \<not> initialized st'
       \<and> startup_errors st' =
           [''System initialization failed: Failed to initialize route calculator''])"
proof -
  let ?st = "app_state_initial :: nat app_state"
  have a: "snd (init_try (example_env\<lparr>wl_json_exists := False\<rparr>) ?st)
        = Some (FileNotFoundError ''West Lafayette crime data not found: WLCrime.json'')"
    by (simp add: init_try_def example_env_def)
  have b: "snd (init_try
                  (example_env\<lparr>analyze_crime_data := Inl (ValueError ''No crime records'')\<rparr>) ?st)
        = Some (ValueError ''No crime records'')"
    by (simp add: init_try_def init_graphs_def example_env_def step_def)
  have c: "snd (init_try
                  (example_env\<lparr>master_calibration := Inl (OtherException ''Calibration failed'')\<rparr>)
                  ?st)
        = Some (OtherException ''Calibration failed'')"
    by (simp add: init_try_def init_graphs_def example_env_def step_def)
  have d: "snd (init_try
                  (example_env\<lparr>create_weighted_graphs := (\<lambda>gb g cw ca. Inl (KeyError ''length''))\<rparr>)
                  ?st)
        = Some (KeyError ''length'')"
    by (simp add: init_try_def init_graphs_def example_env_def step_def)
  have e: "snd (init_try (example_env\<lparr>rc_initialize := (\<lambda>gb ca. Inr (6, False))\<rparr>) ?st)
        = Some (RuntimeError ''Failed to initialize route calculator'')"
    by (simp add: init_try_def init_graphs_def example_env_def step_def)
  show ?thesis
    using initialize_system_catches [OF a] initialize_system_catches [OF b]
      initialize_system_catches [OF c] initialize_system_catches [OF d]
      initialize_system_catches [OF e]
    by (simp add: app_state_initial_def)
qed

section \<open>The health probe\<close>

text \<open>
  Claim C4. In every application state and with any collaborators, \<^verbatim>\<open>health_check\<close>
  returns a response (it raises nothing); the status is \<^verbatim>\<open>healthy\<close> exactly when the
  flag \<^verbatim>\<open>initialized\<close> is set and the list of start-up errors is empty, and
  \<^verbatim>\<open>unhealthy\<close> exactly otherwise; the response carries the start-up errors and the flag.
\<close>

theorem health_check_total:
  "\<exists>resp calls st'. health_check ops st = (Inr resp, calls, st') \<and>
      (h_status resp = ''healthy'' \<longleftrightarrow> initialized st \<and> startup_errors st = []) \<and>
      (h_status resp = ''unhealthy'' \<longleftrightarrow> \<not> (initialized st \<and> startup_errors st = [])) \<and>
      h_errors resp = startup_errors st \<and> h_initialized resp = initialized st"
  by (auto simp: health_check_def Let_def split: option.splits sum.splits prod.splits)

section \<open>The readiness gate\<close>

text \<open>
  Claim C5. While the flag \<^verbatim>\<open>initialized\<close> is false, the handlers of \<^verbatim>\<open>/route\<close>,
  \<^verbatim>\<open>/route/compare\<close> and \<^verbatim>\<open>/stats\<close> fail with the HTTP status 503, make no call on
  the route calculator and leave the state as it is.
\<close>

theorem uninitialized_handlers_503:
  assumes "\<not> initialized st"
  shows "calculate_route ops st request = (Inl not_initialized, [], st)
       \<and> compare_routes ops st cmp_request = (Inl not_initialized, [], st)
       \<and> get_system_stats ops st = (Inl not_initialized, [], st)
       \<and> status_code not_initialized = 503"
  using assms
  by (simp add: calculate_route_def compare_routes_def get_system_stats_def not_initialized_def)

theorem uninitialized_handlers_503_witness:
  "\<not> initialized (app_state_initial :: nat app_state)
   \<and> calculate_route example_ops app_state_initial example_route_request
       = (Inl (HTTPException 503 ''System not initialized. Check /health for details.''), [],
          app_state_initial)
   \<and> compare_routes example_ops app_state_initial (example_request None)
       = (Inl (HTTPException 503 ''System not initialized. Check /health for details.''), [],
          app_state_initial)
   \<and> get_system_stats example_ops app_state_initial
       = (Inl (HTTPException 503 ''System not initialized. Check /health for details.''), [],
          app_state_initial)"
proof -
  have h: "\<not> initialized (app_state_initial :: nat app_state)"
    by (simp add: app_state_initial_def)
  show ?thesis
    using h uninitialized_handlers_503
        [OF h, of example_ops example_route_request "example_request None"]
    by (simp add: not_initialized_def)
qed

section \<open>The statistics query\<close>

text \<open>
  Claim C7, as amended. The \<^verbatim>\<open>/stats\<close> handler makes at most one call on the route
  calculator, the statistics query, and no other. Let that query be read-only, which is
  its contract in the specification, and let the dict it returns be one that no
  component holds. Then the handler leaves the whole application state unchanged
  (components, flag and error list), and a second call returns what the first returned.
\<close>

theorem get_system_stats_read_only:
  assumes "\<And>rc. snd (get_route_statistics ops rc) = rc"
    and "\<And>rc stats held d s.
           fst (get_route_statistics ops rc) = Inr (stats, held) \<Longrightarrow> held d s = s"
  shows "snd (snd (get_system_stats ops st)) = st
       \<and> get_system_stats ops (snd (snd (get_system_stats ops st))) = get_system_stats ops st
       \<and> (fst (snd (get_system_stats ops st)) = []
          \<or> fst (snd (get_system_stats ops st)) = [Call_get_route_statistics])"
proof -
  have frame: "snd (snd (get_system_stats ops st)) = st"
  proof (cases "route_calculator st")
    case None
    then show ?thesis by (simp add: get_system_stats_def)
  next
    case (Some rc)
    have same: "st\<lparr>route_calculator := Some (snd (get_route_statistics ops rc))\<rparr> = st"
      using assms(1) Some by simp
    show ?thesis
    proof (cases "fst (get_route_statistics ops rc)")
      case (Inl e)
      then show ?thesis using Some same by (simp add: get_system_stats_def Let_def)
    next
      case (Inr handed)
      obtain stats held where handed: "handed = (stats, held)" by (cases handed)
      have fresh: "\<And>d s. held d s = s" using assms(2) Inr handed by blast
      show ?thesis
        using Some same Inr handed fresh
        by (simp add: get_system_stats_def Let_def split: option.splits sum.splits)
    qed
  qed
  have calls: "fst (snd (get_system_stats ops st)) = []
          \<or> fst (snd (get_system_stats ops st)) = [Call_get_route_statistics]"
    by (auto simp: get_system_stats_def Let_def split: option.splits sum.splits prod.splits)
  show ?thesis using frame calls by simp
qed

theorem get_system_stats_read_only_witness:
  "snd (snd (get_system_stats example_ops example_state)) = example_state
   \<and> fst (get_system_stats example_ops example_state)
      = Inr [(''graphs'', JInt 4),
             (''initialization_time_seconds'', JNum (Fin 2)),
             (''initialized'', JBool True),
             (''startup_errors'', JList []),
             (''crime_analysis'', JDict [(''total_crimes'', JInt 12), (''indy_crimes'', JInt 0),
                 (''wl_crimes'', JInt 0), (''crime_types_mapped'', JInt 0)])]"
proof -
  have ro: "\<And>rc. snd (get_route_statistics example_ops rc) = rc"
    by (simp add: example_ops_def)
  have fresh: "\<And>rc stats held d s.
      fst (get_route_statistics example_ops rc) = Inr (stats, held) \<Longrightarrow> held d s = s"
    by (auto simp: example_ops_def)
  have "fst (get_system_stats example_ops example_state)
      = Inr [(''graphs'', JInt 4),
             (''initialization_time_seconds'', JNum (Fin 2)),
             (''initialized'', JBool True),
             (''startup_errors'', JList []),
             (''crime_analysis'', JDict [(''total_crimes'', JInt 12), (''indy_crimes'', JInt 0),
                 (''wl_crimes'', JInt 0), (''crime_types_mapped'', JInt 0)])]"
    by (simp add: get_system_stats_def example_ops_def example_state_def
        crime_analysis_entry_def Let_def)
  moreover have "snd (snd (get_system_stats example_ops example_state)) = example_state"
    using get_system_stats_read_only [of example_ops example_state] ro fresh by blast
  ultimately show ?thesis by simp
qed

text \<open>
  The claim as stated, for every call, fails for a calculator that hands out a dict it
  holds. The query of the calculator below is read-only, yet after \<^verbatim>\<open>/stats\<close> the
  calculator's own dict has the four entries the handler wrote into it: the state of a
  component has changed.
\<close>

theorem get_system_stats_held_dict_counterexample:
  "(\<forall>rc. snd (get_route_statistics example_cached_ops rc) = rc)
   \<and> route_calculator example_cached_state = Some [(''graphs'', JInt 4)]
   \<and> route_calculator (snd (snd (get_system_stats example_cached_ops example_cached_state)))
      = Some [(''graphs'', JInt 4),
              (''initialization_time_seconds'', JNum (Fin 2)),
              (''initialized'', JBool True),
              (''startup_errors'', JList []),
              (''crime_analysis'', JDict [(''total_crimes'', JInt 12), (''indy_crimes'', JInt 0),
                  (''wl_crimes'', JInt 0), (''crime_types_mapped'', JInt 0)])]
   \<and> snd (snd (get_system_stats example_cached_ops example_cached_state)) \<noteq> example_cached_state"
proof -
  have ro: "\<forall>rc. snd (get_route_statistics example_cached_ops rc) = rc"
    by (simp add: example_cached_ops_def)
  have before: "route_calculator example_cached_state = Some [(''graphs'', JInt 4)]"
    by (simp add: example_cached_state_def)
  have after:
    "route_calculator (snd (snd (get_system_stats example_cached_ops example_cached_state)))
      = Some [(''graphs'', JInt 4),
              (''initialization_time_seconds'', JNum (Fin 2)),
              (''initialized'', JBool True),
              (''startup_errors'', JList []),
              (''crime_analysis'', JDict [(''total_crimes'', JInt 12), (''indy_crimes'', JInt 0),
                  (''wl_crimes'', JInt 0), (''crime_types_mapped'', JInt 0)])]"
    by (simp add: get_system_stats_def example_cached_ops_def example_cached_state_def
        crime_analysis_entry_def Let_def)
  have "snd (snd (get_system_stats example_cached_ops example_cached_state))
          \<noteq> example_cached_state"
    using before after by auto
  then show ?thesis using ro before after by simp
qed

text \<open>
  The other hypothesis is needed as well: a query that changes the calculator (here it
  counts its calls) changes the state through the handler, which stores nothing itself.
\<close>

lemma get_system_stats_counting_calculator:
  "route_calculator (snd (snd (get_system_stats
      (example_ops\<lparr>get_route_statistics :=
          (\<lambda>rc. (Inr ([(''graphs'', JInt 4)], (\<lambda>d st. st)), Suc rc))\<rparr>) example_state)))
     = Some 7
   \<and> route_calculator example_state = Some 6"
  by (simp add: get_system_stats_def example_ops_def example_state_def
      crime_analysis_entry_def Let_def)

section \<open>The comparison of routes\<close>

lemma update_fresh: "k \<notin> fst ` set al \<Longrightarrow> AList.update k v al = al @ [(k, v)]"
  by (induction al) auto

lemma fold_update_distinct:
  "distinct (map fst acc) \<Longrightarrow>
     distinct (map fst (fold (\<lambda>x results. AList.update (kf x) (vf x) results) xs acc))"
  by (induction xs arbitrary: acc) (simp_all add: distinct_update)

lemma fold_update_keys:
  "fst ` set (fold (\<lambda>x results. AList.update (kf x) (vf x) results) xs acc)
     = fst ` set acc \<union> kf ` set xs"
  by (induction xs arbitrary: acc) (auto simp: dom_update)

lemma fold_update_map_of:
  "map_of (fold (\<lambda>rt results. AList.update rt (vf rt) results) rts acc) k
     = (if k \<in> set rts then Some (vf k) else map_of acc k)"
  by (induction rts arbitrary: acc) (auto simp: update_conv')

lemma fold_update_fresh:
  "distinct (map fst results) \<Longrightarrow> fst ` set results \<inter> fst ` set acc = {} \<Longrightarrow>
     fold (\<lambda>item response. AList.update (fst item) (vf (snd item)) response) results acc
       = acc @ map (\<lambda>item. (fst item, vf (snd item))) results"
proof (induction results arbitrary: acc)
  case Nil
  then show ?case by simp
next
  case (Cons item results)
  have fresh: "fst item \<notin> fst ` set acc" using Cons.prems(2) by auto
  have "fst ` set results \<inter> fst ` set (acc @ [(fst item, vf (snd item))]) = {}"
    using Cons.prems by auto
  then show ?case
    using Cons.IH [of "acc @ [(fst item, vf (snd item))]"] Cons.prems(1) fresh
    by (simp add: update_fresh)
qed

lemma fold_update_in_order:
  "distinct rts \<Longrightarrow> set rts \<inter> fst ` set acc = {} \<Longrightarrow>
     fold (\<lambda>rt results. AList.update rt (vf rt) results) rts acc = acc @ map (\<lambda>rt. (rt, vf rt)) rts"
proof (induction rts arbitrary: acc)
  case Nil
  then show ?case by simp
next
  case (Cons rt rts)
  have fresh: "rt \<notin> fst ` set acc" using Cons.prems(2) by auto
  have "set rts \<inter> fst ` set (acc @ [(rt, vf rt)]) = {}"
    using Cons.prems by auto
  then show ?case
    using Cons.IH [of "acc @ [(rt, vf rt)]"] Cons.prems(1) fresh
    by (simp add: update_fresh)
qed

lemma spec_compare_routes_distinct:
  "distinct (map fst (spec_compare_routes snap search slat slon elat elon rts alg))"
  unfolding spec_compare_routes_def by (rule fold_update_distinct) simp

lemma spec_compare_routes_keys:
  "fst ` set (spec_compare_routes snap search slat slon elat elon rts alg) = set rts"
  unfolding spec_compare_routes_def by (simp add: fold_update_keys)

lemma spec_compare_routes_map_of:
  "map_of (spec_compare_routes snap search slat slon elat elon rts alg) rt
     = (if rt \<in> set rts then Some (spec_route_entry snap search slat slon elat elon alg rt)
        else None)"
  unfolding spec_compare_routes_def by (simp add: fold_update_map_of)

lemma spec_compare_routes_in_order:
  "distinct rts \<Longrightarrow>
     spec_compare_routes snap search slat slon elat elon rts alg
       = map (\<lambda>rt. (rt, spec_route_entry snap search slat slon elat elon alg rt)) rts"
  unfolding spec_compare_routes_def using fold_update_in_order [of rts "[]"] by simp

lemma spec_route_entry_kind:
  "successful (to_response (spec_route_entry snap search slat slon elat elon alg rt))
     \<or> error_only (to_response (spec_route_entry snap search slat slon elat elon alg rt))"
  by (simp add: spec_route_entry_def successful_def error_only_def to_response_def
      spec_error_result_def split: sum.splits)

text \<open>On the code alone: the response of the handler has the keys of the calculator's dict.\<close>

lemma compare_routes_response:
  assumes "initialized st" and "route_calculator st = Some rc"
    and "fst (rc_compare_routes ops rc (cmp_start_lat request) (cmp_start_lon request)
                (cmp_end_lat request) (cmp_end_lon request)
                (case cmp_route_types request of
                   None \<Rightarrow> [''fastest'', ''safe'', ''bike'', ''safe_bike''] | Some ts \<Rightarrow> ts)
                (cmp_algorithm request)) = Inr results"
    and "distinct (map fst results)"
  shows "fst (compare_routes ops st request)
           = Inr (map (\<lambda>item. (fst item, to_response (snd item))) results)"
  using assms fold_update_fresh [of results "[]" to_response]
  by (simp add: compare_routes_def Let_def)

text \<open>
  Claim C1, as amended. On an initialized system whose route calculator compares routes
  as the specification says, the \<^verbatim>\<open>/route/compare\<close> handler returns a mapping (no
  exception) with exactly one entry per distinct requested route type: its keys are
  distinct and are the requested types, so it has as many entries as there are distinct
  requested types, and \<^verbatim>\<open>len(route_types)\<close> entries in the requested order when no
  type is requested twice. The entry of a type is the result of that type alone,
  whatever happens to the others, and it is a success or carries only an error message.
\<close>

theorem compare_routes_one_entry_per_type:
  assumes "initialized st" and "route_calculator st = Some rc"
    and "rc_compare_routes ops =
           (\<lambda>rc slat slon elat elon rts alg.
              (Inr (spec_compare_routes snap search slat slon elat elon rts alg), rc))"
    and "route_types = (case cmp_route_types request of
                          None \<Rightarrow> [''fastest'', ''safe'', ''bike'', ''safe_bike''] | Some ts \<Rightarrow> ts)"
  shows "\<exists>response. fst (compare_routes ops st request) = Inr response
      \<and> distinct (map fst response) \<and> set (map fst response) = set route_types
      \<and> length response = card (set route_types)
      \<and> (distinct route_types \<longrightarrow> map fst response = route_types)
      \<and> (\<forall>rt\<in>set route_types.
            map_of response rt
              = Some (to_response (spec_route_entry snap search (cmp_start_lat request)
                        (cmp_start_lon request) (cmp_end_lat request) (cmp_end_lon request)
                        (cmp_algorithm request) rt)))
      \<and> (\<forall>rt\<in>set route_types. \<exists>r. map_of response rt = Some r \<and> (successful r \<or> error_only r))"
proof -
  define results where "results = spec_compare_routes snap search (cmp_start_lat request)
      (cmp_start_lon request) (cmp_end_lat request) (cmp_end_lon request) route_types
      (cmp_algorithm request)"
  define response where "response = map (\<lambda>item. (fst item, to_response (snd item))) results"
  have d: "distinct (map fst results)"
    unfolding results_def by (rule spec_compare_routes_distinct)
  have "fst (rc_compare_routes ops rc (cmp_start_lat request) (cmp_start_lon request)
                (cmp_end_lat request) (cmp_end_lon request)
                (case cmp_route_types request of
                   None \<Rightarrow> [''fastest'', ''safe'', ''bike'', ''safe_bike''] | Some ts \<Rightarrow> ts)
                (cmp_algorithm request)) = Inr results"
    using assms(3,4) by (simp add: results_def)
  then have eq: "fst (compare_routes ops st request) = Inr response"
    unfolding response_def using compare_routes_response [OF assms(1,2) _ d] by simp
  have keys: "map fst response = map fst results"
    by (simp add: response_def comp_def)
  have k1: "distinct (map fst response)" using d keys by simp
  have k2: "set (map fst response) = set route_types"
    using keys spec_compare_routes_keys [of snap search _ _ _ _ route_types]
    by (simp add: results_def)
  have k3: "length response = card (set route_types)"
    using distinct_card [OF k1] k2 by simp
  have k4: "distinct route_types \<longrightarrow> map fst response = route_types"
    using keys by (auto simp: results_def spec_compare_routes_in_order comp_def)
  have mo: "map_of response rt = map_option to_response (map_of results rt)" for rt
    unfolding response_def by (induction results) auto
  have k5: "\<forall>rt\<in>set route_types.
            map_of response rt
              = Some (to_response (spec_route_entry snap search (cmp_start_lat request)
                        (cmp_start_lon request) (cmp_end_lat request) (cmp_end_lon request)
                        (cmp_algorithm request) rt))"
    by (simp add: mo results_def spec_compare_routes_map_of)
  have k6: "\<forall>rt\<in>set route_types. \<exists>r. map_of response rt = Some r \<and> (successful r \<or> error_only r)"
  proof
    fix rt assume "rt \<in> set route_types"
    then have "map_of response rt
              = Some (to_response (spec_route_entry snap search (cmp_start_lat request)
                        (cmp_start_lon request) (cmp_end_lat request) (cmp_end_lon request)
                        (cmp_algorithm request) rt))"
      using k5 by simp
    then show "\<exists>r. map_of response rt = Some r \<and> (successful r \<or> error_only r)"
      using spec_route_entry_kind [of snap search "cmp_start_lat request"
          "cmp_start_lon request" "cmp_end_lat request" "cmp_end_lon request"
          "cmp_algorithm request" rt]
      by simp
  qed
  show ?thesis using eq k1 k2 k3 k4 k5 k6 by blast
qed

theorem compare_routes_one_entry_per_type_witness:
  "\<exists>response.
      fst (compare_routes example_spec_ops example_state
             (example_request (Some [''fastest'', ''bike'', ''fastest'', ''safe''])))
        = Inr response
    \<and> map fst response = [''fastest'', ''bike'', ''safe'']
    \<and> length response = 3
    \<and> map (\<lambda>item. resp_error_message (snd item)) response = [None, Some ''No route found'', None]
    \<and> (\<forall>rt\<in>{''fastest'', ''bike'', ''safe''}.
          \<exists>r. map_of response rt = Some r \<and> (successful r \<or> error_only r))"
proof -
  let ?request = "example_request (Some [''fastest'', ''bike'', ''fastest'', ''safe''])"
  have i: "initialized example_state" "route_calculator example_state = Some 6"
    by (simp_all add: example_state_def)
  have o: "rc_compare_routes example_spec_ops =
           (\<lambda>rc slat slon elat elon rts alg.
              (Inr (spec_compare_routes example_snap example_search slat slon elat elon rts alg),
               rc))"
    by (simp add: example_spec_ops_def)
  have t: "[''fastest'', ''bike'', ''fastest'', ''safe'']
             = (case cmp_route_types ?request of
                  None \<Rightarrow> [''fastest'', ''safe'', ''bike'', ''safe_bike''] | Some ts \<Rightarrow> ts)"
    by (simp add: example_request_def)
  obtain response where r: "fst (compare_routes example_spec_ops example_state ?request) = Inr response"
    and kind: "\<forall>rt\<in>set [''fastest'', ''bike'', ''fastest'', ''safe''].
                 \<exists>r. map_of response rt = Some r \<and> (successful r \<or> error_only r)"
    using compare_routes_one_entry_per_type [OF i o t] by blast
  have v: "fst (compare_routes example_spec_ops example_state ?request)
      = Inr [(''fastest'', to_response (example_result ''fastest'' ''dijkstra'')),
             (''bike'', to_response (spec_error_result ''bike'' ''dijkstra'' ''No route found'')),
             (''safe'', to_response (example_result ''safe'' ''dijkstra''))]"
    by (simp add: compare_routes_def example_spec_ops_def example_ops_def example_state_def
        example_request_def spec_compare_routes_def spec_route_entry_def example_snap_def
        example_search_def example_result_def Let_def)
  have "map fst response = [''fastest'', ''bike'', ''safe''] \<and> length response = 3
    \<and> map (\<lambda>item. resp_error_message (snd item)) response = [None, Some ''No route found'', None]"
    using r v by (auto simp: to_response_def example_result_def spec_error_result_def)
  then show ?thesis using r kind by auto
qed

text \<open>
  The claim as stated fails on two inputs: a route type requested twice has one entry,
  not two, and on a system that is not initialized the handler raises the HTTP error 503
  instead of returning a mapping.
\<close>

theorem compare_routes_length_counterexample:
  "\<not> (\<exists>response.
         fst (compare_routes example_spec_ops example_state
                (example_request (Some [''fastest'', ''fastest''])))
           = Inr response
       \<and> length response = length [''fastest'', ''fastest''])
   \<and> fst (compare_routes example_spec_ops app_state_initial
            (example_request (Some [''fastest''])))
       = Inl (HTTPException 503 ''System not initialized. Check /health for details.'')"
proof -
  have v: "fst (compare_routes example_spec_ops example_state
                  (example_request (Some [''fastest'', ''fastest''])))
      = Inr [(''fastest'', to_response (example_result ''fastest'' ''dijkstra''))]"
    by (simp add: compare_routes_def example_spec_ops_def example_ops_def example_state_def
        example_request_def spec_compare_routes_def spec_route_entry_def example_snap_def
        example_search_def example_result_def Let_def)
  have u: "fst (compare_routes example_spec_ops app_state_initial
            (example_request (Some [''fastest''])))
       = Inl (HTTPException 503 ''System not initialized. Check /health for details.'')"
    by (simp add: compare_routes_def app_state_initial_def not_initialized_def)
  show ?thesis using v u by auto
qed

section \<open>Defaults of the requests\<close>

lemma compare_request_fields:
  assumes "new_RouteCompareRequestModel slat slon elat elon rts alg = Inr request"
  shows "request = \<lparr>cmp_start_lat = slat, cmp_start_lon = slon, cmp_end_lat = elat,
                   cmp_end_lon = elon, cmp_route_types = rts,
                   cmp_algorithm = (case alg of None \<Rightarrow> ''dijkstra'' | Some a \<Rightarrow> a)\<rparr>"
  using assms by (simp add: new_RouteCompareRequestModel_def Let_def split: if_splits)

lemma compare_routes_calls:
  assumes "initialized st" and "route_calculator st = Some rc"
  shows "fst (snd (compare_routes ops st request))
       = [Call_compare_routes (cmp_start_lat request) (cmp_start_lon request)
            (cmp_end_lat request) (cmp_end_lon request)
            (case cmp_route_types request of
               None \<Rightarrow> [''fastest'', ''safe'', ''bike'', ''safe_bike''] | Some ts \<Rightarrow> ts)
            (cmp_algorithm request)]"
  using assms by (simp add: compare_routes_def Let_def split: sum.splits)

lemma route_request_default_algorithm:
  "new_RouteRequestModel slat slon elat elon rt None = Inr m \<Longrightarrow> algorithm m = ''dijkstra''"
  by (auto simp: new_RouteRequestModel_def Let_def split: if_splits)

text \<open>
  Claim C8. A comparison request built without \<^verbatim>\<open>route_types\<close> (omitted or null: the
  field is \<open>None\<close>) is answered, on an initialized system, with all four types fastest,
  safe, bike, safe_bike in this order: the handler calls the route calculator exactly
  once, for these four types, and its answer is the calculator's answer to that call,
  either the error 500 with the calculator's exception or the conversion, entry by
  entry, of the dict the calculator returned. A request built without \<^verbatim>\<open>algorithm\<close>
  has the algorithm dijkstra, in the single-route model and in the comparison model, and
  that is the algorithm passed to the calculator.
\<close>

theorem default_route_types_and_algorithm:
  "(new_RouteCompareRequestModel slat slon elat elon None alg = Inr request
      \<and> initialized st \<and> route_calculator st = Some rc
     \<longrightarrow> fst (snd (compare_routes ops st request))
          = [Call_compare_routes slat slon elat elon
               [''fastest'', ''safe'', ''bike'', ''safe_bike'']
               (case alg of None \<Rightarrow> ''dijkstra'' | Some a \<Rightarrow> a)]
       \<and> (\<forall>e. fst (rc_compare_routes ops rc slat slon elat elon
                     [''fastest'', ''safe'', ''bike'', ''safe_bike'']
                     (case alg of None \<Rightarrow> ''dijkstra'' | Some a \<Rightarrow> a)) = Inl e
              \<longrightarrow> fst (compare_routes ops st request)
                    = Inl (HTTPException 500 (''Route comparison failed: '' @ str_exn e)))
       \<and> (\<forall>results. fst (rc_compare_routes ops rc slat slon elat elon
                           [''fastest'', ''safe'', ''bike'', ''safe_bike'']
                           (case alg of None \<Rightarrow> ''dijkstra'' | Some a \<Rightarrow> a)) = Inr results
                    \<and> distinct (map fst results)
              \<longrightarrow> fst (compare_routes ops st request)
                    = Inr (map (\<lambda>item. (fst item, to_response (snd item))) results)))
   \<and> (new_RouteRequestModel slat slon elat elon rt None = Inr m \<longrightarrow> algorithm m = ''dijkstra'')
   \<and> (new_RouteCompareRequestModel slat slon elat elon rts None = Inr m'
        \<longrightarrow> cmp_algorithm m' = ''dijkstra'')"
proof (intro conjI impI allI)
  assume a: "new_RouteCompareRequestModel slat slon elat elon None alg = Inr request
      \<and> initialized st \<and> route_calculator st = Some rc"
  then have "request = \<lparr>cmp_start_lat = slat, cmp_start_lon = slon, cmp_end_lat = elat,
                   cmp_end_lon = elon, cmp_route_types = None,
                   cmp_algorithm = (case alg of None \<Rightarrow> ''dijkstra'' | Some a \<Rightarrow> a)\<rparr>"
    using compare_request_fields by blast
  moreover have "initialized st" "route_calculator st = Some rc" using a by simp_all
  ultimately show "fst (snd (compare_routes ops st request))
          = [Call_compare_routes slat slon elat elon
               [''fastest'', ''safe'', ''bike'', ''safe_bike'']
               (case alg of None \<Rightarrow> ''dijkstra'' | Some a \<Rightarrow> a)]"
    using compare_routes_calls [of st rc ops request] by simp
next
  fix e
  assume a: "new_RouteCompareRequestModel slat slon elat elon None alg = Inr request
      \<and> initialized st \<and> route_calculator st = Some rc"
    and r: "fst (rc_compare_routes ops rc slat slon elat elon
                   [''fastest'', ''safe'', ''bike'', ''safe_bike'']
                   (case alg of None \<Rightarrow> ''dijkstra'' | Some a \<Rightarrow> a)) = Inl e"
  from a have "request = \<lparr>cmp_start_lat = slat, cmp_start_lon = slon, cmp_end_lat = elat,
                   cmp_end_lon = elon, cmp_route_types = None,
                   cmp_algorithm = (case alg of None \<Rightarrow> ''dijkstra'' | Some a \<Rightarrow> a)\<rparr>"
    using compare_request_fields by blast
  moreover have "initialized st" "route_calculator st = Some rc" using a by simp_all
  ultimately show "fst (compare_routes ops st request)
          = Inl (HTTPException 500 (''Route comparison failed: '' @ str_exn e))"
    using r by (simp add: compare_routes_def Let_def)
next
  fix results
  assume a: "new_RouteCompareRequestModel slat slon elat elon None alg = Inr request
      \<and> initialized st \<and> route_calculator st = Some rc"
    and r: "fst (rc_compare_routes ops rc slat slon elat elon
                   [''fastest'', ''safe'', ''bike'', ''safe_bike'']
                   (case alg of None \<Rightarrow> ''dijkstra'' | Some a \<Rightarrow> a)) = Inr results
            \<and> distinct (map fst results)"
  from a have "request = \<lparr>cmp_start_lat = slat, cmp_start_lon = slon, cmp_end_lat = elat,
                   cmp_end_lon = elon, cmp_route_types = None,
                   cmp_algorithm = (case alg of None \<Rightarrow> ''dijkstra'' | Some a \<Rightarrow> a)\<rparr>"
    using compare_request_fields by blast
  moreover have "initialized st" "route_calculator st = Some rc" using a by simp_all
  ultimately show "fst (compare_routes ops st request)
          = Inr (map (\<lambda>item. (fst item, to_response (snd item))) results)"
    using r compare_routes_response [of st rc ops request results] by simp
next
  assume "new_RouteRequestModel slat slon elat elon rt None = Inr m"
  then show "algorithm m = ''dijkstra''" by (rule route_request_default_algorithm)
next
  assume "new_RouteCompareRequestModel slat slon elat elon rts None = Inr m'"
  then show "cmp_algorithm m' = ''dijkstra''"
    using compare_request_fields [of slat slon elat elon rts None m'] by simp
qed

theorem default_route_types_and_algorithm_witness:
  "fst (snd (compare_routes example_ops example_state (example_request None)))
     = [Call_compare_routes (Fin 40) (Fin (- 86)) (Fin 41) (Fin (- 87))
          [''fastest'', ''safe'', ''bike'', ''safe_bike''] ''dijkstra'']
   \<and> fst (compare_routes example_ops example_state (example_request None))
     = Inr [(''fastest'', to_response (example_result ''fastest'' ''dijkstra'')),
            (''safe'', to_response (example_result ''safe'' ''dijkstra'')),
            (''bike'', to_response (example_result ''bike'' ''dijkstra'')),
            (''safe_bike'', to_response (example_result ''safe_bike'' ''dijkstra''))]
   \<and> (\<exists>m. new_RouteRequestModel (Fin 40) (Fin (- 86)) (Fin 41) (Fin (- 87)) ''safe'' None = Inr m
          \<and> algorithm m = ''dijkstra'')
   \<and> (\<exists>m. new_RouteCompareRequestModel (Fin 40) (Fin (- 86)) (Fin 41) (Fin (- 87))
            (Some [''safe'']) None = Inr m
          \<and> cmp_algorithm m = ''dijkstra'')"
proof -
  have c: "new_RouteCompareRequestModel (Fin 40) (Fin (- 86)) (Fin 41) (Fin (- 87)) None None
             = Inr (example_request None)"
    by (simp add: new_RouteCompareRequestModel_def example_request_def
        validate_latitude_def validate_longitude_def)
  have i: "initialized example_state" "route_calculator example_state = Some 6"
    by (simp_all add: example_state_def)
  have r: "fst (rc_compare_routes example_ops 6 (Fin 40) (Fin (- 86)) (Fin 41) (Fin (- 87))
                  [''fastest'', ''safe'', ''bike'', ''safe_bike''] ''dijkstra'')
             = Inr [(''fastest'', example_result ''fastest'' ''dijkstra''),
                    (''safe'', example_result ''safe'' ''dijkstra''),
                    (''bike'', example_result ''bike'' ''dijkstra''),
                    (''safe_bike'', example_result ''safe_bike'' ''dijkstra'')]"
    by (simp add: example_ops_def)
  obtain m where m:
    "new_RouteRequestModel (Fin 40) (Fin (- 86)) (Fin 41) (Fin (- 87)) ''safe'' None = Inr m"
    by (simp add: new_RouteRequestModel_def validate_latitude_def validate_longitude_def
        validate_route_type_def valid_types_def)
  obtain m' where m':
    "new_RouteCompareRequestModel (Fin 40) (Fin (- 86)) (Fin 41) (Fin (- 87))
       (Some [''safe'']) None = Inr m'"
    by (simp add: new_RouteCompareRequestModel_def validate_latitude_def validate_longitude_def)
  show ?thesis
    using default_route_types_and_algorithm [of "Fin 40" "Fin (- 86)" "Fin 41" "Fin (- 87)" None
        "example_request None" example_state 6 example_ops "''safe''" m "Some [''safe'']" m']
      c i r m m'
    by simp
qed

section \<open>The crime data loader\<close>

lemma bnd_Inr_iff: "bnd m f = Inr v \<longleftrightarrow> (\<exists>x. m = Inr x \<and> f x = Inr v)"
  by (cases m) simp_all

text \<open>When every line can be printed, the function is its \<^verbatim>\<open>try\<close> block with the exceptions turned into \<^verbatim>\<open>None\<close>.\<close>

lemma load_json_crime_data_cases:
  assumes "\<And>m. print_line env m = Inr ()"
  shows "load_json_crime_data env path
           = (case load_try env path of Inl e \<Rightarrow> Inr None | Inr r \<Rightarrow> Inr r)"
  by (simp add: load_json_crime_data_def assms split: sum.splits exn.splits)

text \<open>Whatever printing does, a table returned is the table of the \<^verbatim>\<open>try\<close> block.\<close>

lemma load_json_crime_data_Some:
  "load_json_crime_data env path = Inr (Some res) \<Longrightarrow> load_try env path = Inr (Some res)"
  by (auto simp: load_json_crime_data_def bnd_Inr_iff split: sum.splits exn.splits)

lemma extract_incidents_len:
  "extract_incidents data = Inr (Some incidents) \<Longrightarrow> \<exists>n. py_len incidents = Inr n"
  unfolding extract_incidents_def by (auto simp: bnd_Inr_iff split: if_splits)

lemma example_files_print: "print_line example_files m = Inr ()"
  by (simp add: example_files_def)

lemma in_window_range:
  "in_window r \<longleftrightarrow>
     (\<exists>x y. latitude r = Fin x \<and> 20 \<le> x \<and> x \<le> 55 \<and> longitude r = Fin y \<and> - 140 \<le> y \<and> y \<le> - 60)"
  by (cases "latitude r"; cases "longitude r") (simp_all add: in_window_def fge_def)

lemma record_of_Some:
  assumes "record_of incident = Inr (Some r0)"
  shows "\<exists>location coords. py_in ''location'' incident = Inr True
          \<and> py_getitem incident ''location'' = Inr location
          \<and> py_in ''coordinates'' location = Inr True
          \<and> py_getitem location ''coordinates'' = Inr coords
          \<and> py_index coords 0 = Inr (longitude r0)
          \<and> py_index coords 1 = Inr (latitude r0)"
  using assms unfolding record_of_def
  by (auto simp: bnd_Inr_iff split: if_splits)

lemma collect_records_origin:
  "collect_records items = Inr records \<Longrightarrow> r \<in> set records
     \<Longrightarrow> \<exists>incident\<in>set items. record_of incident = Inr (Some r)"
proof (induction items arbitrary: records)
  case Nil
  then show ?case by simp
next
  case (Cons incident rest)
  from Cons.prems(1) obtain x rs where x: "record_of incident = Inr x"
    and rs: "collect_records rest = Inr rs"
    and recs: "records = (case x of None \<Rightarrow> rs | Some y \<Rightarrow> y # rs)"
    by (auto simp: bnd_Inr_iff)
  show ?case
  proof (cases "r \<in> set rs")
    case True
    then show ?thesis using Cons.IH [OF rs] by auto
  next
    case False
    then have "x = Some r" using recs Cons.prems(2) by (cases x) auto
    then show ?thesis using x by simp
  qed
qed

lemma convert_column_length:
  "convert_column f xs = Inr ys \<Longrightarrow> length ys = length xs"
  by (induction xs arbitrary: ys) (auto simp: bnd_Inr_iff)

lemma convert_column_nth:
  "convert_column f xs = Inr ys \<Longrightarrow> i < length xs \<Longrightarrow> f (xs ! i) = Inr (ys ! i)"
proof (induction xs arbitrary: ys i)
  case Nil
  then show ?case by simp
next
  case (Cons x xs)
  then show ?case by (cases i) (auto simp: bnd_Inr_iff)
qed

lemma load_try_Some:
  assumes "load_try env path = Inr (Some (df, a, b, c, d))"
  shows "\<exists>data incidents items records lats lons.
           load_json env path = Inr data \<and> extract_incidents data = Inr (Some incidents)
         \<and> py_iter incidents = Inr items \<and> collect_records items = Inr records
         \<and> convert_column (to_numeric env) (map latitude records) = Inr lats
         \<and> convert_column (to_numeric env) (map longitude records) = Inr lons
         \<and> df = filter in_window (dropna (map (\<lambda>(r, lat, lon). with_coordinates r lat lon)
                     (zip records (zip lats lons))))"
  using assms unfolding load_try_def
  by (auto simp: bnd_Inr_iff Let_def split: option.splits if_splits)

text \<open>
  Claim C9. When \<^verbatim>\<open>load_json_crime_data\<close> returns a table, every row of it has a
  finite latitude in [20, 55] and a finite longitude in [-140, -60] (so neither is NaN);
  and every row stems from an incident of the file that has a \<^verbatim>\<open>location\<close> with
  \<^verbatim>\<open>coordinates\<close>, its two coordinates being the numeric conversions of that
  incident's. So an incident without coordinates, with a coordinate that converts to
  NaN, or outside the window is in no row.
\<close>

theorem load_json_crime_data_window:
  assumes "load_json_crime_data env path = Inr (Some (df, a, b, c, d))"
  shows "(\<forall>r\<in>set df. \<exists>x y. latitude r = Fin x \<and> 20 \<le> x \<and> x \<le> 55
                          \<and> longitude r = Fin y \<and> - 140 \<le> y \<and> y \<le> - 60)
       \<and> (\<forall>r\<in>set df. \<exists>data incidents items incident r0.
             load_json env path = Inr data \<and> extract_incidents data = Inr (Some incidents)
           \<and> py_iter incidents = Inr items \<and> incident \<in> set items
           \<and> record_of incident = Inr (Some r0)
           \<and> to_numeric env (latitude r0) = Inr (latitude r)
           \<and> to_numeric env (longitude r0) = Inr (longitude r)
           \<and> r = with_coordinates r0 (latitude r) (longitude r))"
proof -
  from assms have "load_try env path = Inr (Some (df, a, b, c, d))"
    by (rule load_json_crime_data_Some)
  then obtain data incidents items records lats lons where
    data: "load_json env path = Inr data" and
    inc: "extract_incidents data = Inr (Some incidents)" and
    items: "py_iter incidents = Inr items" and
    recs: "collect_records items = Inr records" and
    lats: "convert_column (to_numeric env) (map latitude records) = Inr lats" and
    lons: "convert_column (to_numeric env) (map longitude records) = Inr lons" and
    df: "df = filter in_window (dropna (map (\<lambda>(r, lat, lon). with_coordinates r lat lon)
                     (zip records (zip lats lons))))"
    using load_try_Some by blast
  have window: "\<forall>r\<in>set df. \<exists>x y. latitude r = Fin x \<and> 20 \<le> x \<and> x \<le> 55
                          \<and> longitude r = Fin y \<and> - 140 \<le> y \<and> y \<le> - 60"
    using df in_window_range by auto
  have len: "length lats = length records" "length lons = length records"
    using convert_column_length [OF lats] convert_column_length [OF lons] by simp_all
  have origin: "\<exists>data incidents items incident r0.
             load_json env path = Inr data \<and> extract_incidents data = Inr (Some incidents)
           \<and> py_iter incidents = Inr items \<and> incident \<in> set items
           \<and> record_of incident = Inr (Some r0)
           \<and> to_numeric env (latitude r0) = Inr (latitude r)
           \<and> to_numeric env (longitude r0) = Inr (longitude r)
           \<and> r = with_coordinates r0 (latitude r) (longitude r)" if r: "r \<in> set df" for r
  proof -
    from r df have "r \<in> set (map (\<lambda>(r, lat, lon). with_coordinates r lat lon)
                     (zip records (zip lats lons)))"
      by (simp add: dropna_def)
    then obtain i where i: "i < length records"
      and ri: "r = with_coordinates (records ! i) (lats ! i) (lons ! i)"
      using len by (auto simp: in_set_conv_nth)
    have la: "to_numeric env (latitude (records ! i)) = Inr (lats ! i)"
      using convert_column_nth [OF lats, of i] i by simp
    have lo: "to_numeric env (longitude (records ! i)) = Inr (lons ! i)"
      using convert_column_nth [OF lons, of i] i by simp
    have "records ! i \<in> set records" using i by simp
    then obtain incident where "incident \<in> set items" "record_of incident = Inr (Some (records ! i))"
      using collect_records_origin [OF recs] by blast
    moreover have "latitude r = lats ! i" "longitude r = lons ! i"
      using ri by (simp_all add: with_coordinates_def)
    ultimately show ?thesis using data inc items la lo ri by metis
  qed
  show ?thesis using window origin by blast
qed

text \<open>The table loaded from the document of five incidents: the first and the fifth.\<close>

lemma example_rows:
  "load_json_crime_data example_files ''WLCrime.json'' =
     Inr (Some ([with_coordinates
                   \<lparr>id' = JInt 1, ccn = JNull, date = JNull, latitude = JInt 40, longitude = JInt (- 87),
                    city = JNull, state = JNull, address = JNull, incident_type = JNull,
                    parent_incident_type = JStr ''Theft'', parent_incident_type_id = JNull,
                    narrative = JNull, agency_id = JNull, customer_id = JNull\<rparr> (Fin 40) (Fin (- 87)),
                 with_coordinates
                   \<lparr>id' = JInt 5, ccn = JNull, date = JNull, latitude = JNum (Fin 39.75),
                    longitude = JNum (Fin (- 86.5)),
                    city = JNull, state = JNull, address = JNull, incident_type = JNull,
                    parent_incident_type = JStr ''Theft'', parent_incident_type_id = JNull,
                    narrative = JNull, agency_id = JNull, customer_id = JNull\<rparr> (Fin 39.75) (Fin (- 86.5))],
                ''latitude'', ''longitude'', ''parent_incident_type'', ''date''))"
  by (simp add: load_json_crime_data_def load_try_def example_files_def example_document_def
      example_incident_def extract_incidents_def record_of_def example_to_numeric_def
      with_coordinates_def dropna_def in_window_def fge_def)

theorem load_json_crime_data_window_witness:
  "\<exists>df. load_json_crime_data example_files ''WLCrime.json''
           = Inr (Some (df, ''latitude'', ''longitude'', ''parent_incident_type'', ''date''))
      \<and> map id' df = [JInt 1, JInt 5]
      \<and> map latitude df = [Fin 40, Fin 39.75]
      \<and> map longitude df = [Fin (- 87), Fin (- 86.5)]
      \<and> (\<forall>r\<in>set df. \<exists>x y. latitude r = Fin x \<and> 20 \<le> x \<and> x \<le> 55
                          \<and> longitude r = Fin y \<and> - 140 \<le> y \<and> y \<le> - 60)"
proof -
  obtain df where df: "load_json_crime_data example_files ''WLCrime.json''
           = Inr (Some (df, ''latitude'', ''longitude'', ''parent_incident_type'', ''date''))"
    and cols: "map id' df = [JInt 1, JInt 5]" "map latitude df = [Fin 40, Fin 39.75]"
      "map longitude df = [Fin (- 87), Fin (- 86.5)]"
    using example_rows by (simp add: with_coordinates_def)
  show ?thesis
    using load_json_crime_data_window [OF df] df cols by (intro exI [of _ df]) simp
qed

lemma extract_incidents_no_result:
  "''result'' \<notin> fst ` set d \<Longrightarrow> extract_incidents (JDict d) = Inr None"
  by (simp add: extract_incidents_def)

lemma extract_incidents_no_list:
  "map_of d ''result'' = Some (JDict r) \<Longrightarrow> ''list'' \<notin> fst ` set r
     \<Longrightarrow> extract_incidents (JDict d) = Inr None"
  by (auto simp: extract_incidents_def dest: map_of_SomeD intro: rev_image_eqI)

lemma extract_incidents_no_incidents:
  "map_of d ''result'' = Some (JDict r) \<Longrightarrow> map_of r ''list'' = Some (JDict l)
     \<Longrightarrow> ''incidents'' \<notin> fst ` set l \<Longrightarrow> extract_incidents (JDict d) = Inr None"
  by (auto simp: extract_incidents_def dest: map_of_SomeD intro: rev_image_eqI)

text \<open>
  Claim C10, as amended. As long as every line can be printed,
  \<^verbatim>\<open>load_json_crime_data\<close> always returns (no exception reaches the caller), and it
  returns \<^verbatim>\<open>None\<close> when opening or decoding the file raises (a missing file,
  malformed JSON), when the document lacks the nested \<^verbatim>\<open>result/list/incidents\<close>
  structure, when no incident yields a record (none has a \<^verbatim>\<open>location\<close> with
  \<^verbatim>\<open>coordinates\<close>), and when any exception is raised while the file is processed.
  "No valid records" is the test of the source, made on the records collected and before
  their coordinates are cleaned: once a record is collected and the two columns are
  converted, the table of the cleaned rows is returned, whether or not a row is left.
\<close>

theorem load_json_crime_data_never_raises:
  assumes "\<And>m. print_line env m = Inr ()"
  shows "(\<exists>r. load_json_crime_data env path = Inr r)
   \<and> (load_json env path = Inl e \<longrightarrow> load_json_crime_data env path = Inr None)
   \<and> (load_json env path = Inr data \<and> extract_incidents data = Inr None
        \<longrightarrow> load_json_crime_data env path = Inr None)
   \<and> (load_json env path = Inr data \<and> extract_incidents data = Inr (Some incidents)
        \<and> py_iter incidents = Inr items \<and> collect_records items = Inr []
        \<longrightarrow> load_json_crime_data env path = Inr None)
   \<and> (load_try env path = Inl e' \<longrightarrow> load_json_crime_data env path = Inr None)
   \<and> (load_json env path = Inr data \<and> extract_incidents data = Inr (Some incidents)
        \<and> py_iter incidents = Inr items \<and> collect_records items = Inr records
        \<and> records \<noteq> []
        \<and> convert_column (to_numeric env) (map latitude records) = Inr lats
        \<and> convert_column (to_numeric env) (map longitude records) = Inr lons
        \<longrightarrow> load_json_crime_data env path
              = Inr (Some (filter in_window
                             (dropna (map (\<lambda>(r, lat, lon). with_coordinates r lat lon)
                                        (zip records (zip lats lons)))),
                           ''latitude'', ''longitude'', ''parent_incident_type'', ''date'')))"
proof (intro conjI impI)
  show "\<exists>r. load_json_crime_data env path = Inr r"
    by (simp add: load_json_crime_data_cases [OF assms] split: sum.splits)
next
  assume "load_json env path = Inl e"
  then have "load_try env path = Inl e" by (simp add: load_try_def)
  then show "load_json_crime_data env path = Inr None"
    by (simp add: load_json_crime_data_cases [OF assms])
next
  assume "load_json env path = Inr data \<and> extract_incidents data = Inr None"
  then have "load_try env path = Inr None" by (simp add: load_try_def assms)
  then show "load_json_crime_data env path = Inr None"
    by (simp add: load_json_crime_data_cases [OF assms])
next
  assume a: "load_json env path = Inr data \<and> extract_incidents data = Inr (Some incidents)
        \<and> py_iter incidents = Inr items \<and> collect_records items = Inr []"
  then obtain n where "py_len incidents = Inr n" using extract_incidents_len by blast
  then have "load_try env path = Inr None" using a by (simp add: load_try_def assms)
  then show "load_json_crime_data env path = Inr None"
    by (simp add: load_json_crime_data_cases [OF assms])
next
  assume "load_try env path = Inl e'"
  then show "load_json_crime_data env path = Inr None"
    by (simp add: load_json_crime_data_cases [OF assms])
next
  assume a: "load_json env path = Inr data \<and> extract_incidents data = Inr (Some incidents)
        \<and> py_iter incidents = Inr items \<and> collect_records items = Inr records
        \<and> records \<noteq> []
        \<and> convert_column (to_numeric env) (map latitude records) = Inr lats
        \<and> convert_column (to_numeric env) (map longitude records) = Inr lons"
  then obtain n where "py_len incidents = Inr n" using extract_incidents_len by blast
  then have "load_try env path
              = Inr (Some (filter in_window
                             (dropna (map (\<lambda>(r, lat, lon). with_coordinates r lat lon)
                                        (zip records (zip lats lons)))),
                           ''latitude'', ''longitude'', ''parent_incident_type'', ''date''))"
    using a by (simp add: load_try_def assms Let_def)
  then show "load_json_crime_data env path
              = Inr (Some (filter in_window
                             (dropna (map (\<lambda>(r, lat, lon). with_coordinates r lat lon)
                                        (zip records (zip lats lons)))),
                           ''latitude'', ''longitude'', ''parent_incident_type'', ''date''))"
    by (simp add: load_json_crime_data_cases [OF assms])
qed

theorem load_json_crime_data_never_raises_witness:
  "(\<forall>m. print_line example_files m = Inr ())
   \<and> load_json_crime_data example_files ''missing.json'' = Inr None
   \<and> load_json_crime_data example_files ''broken.json'' = Inr None
   \<and> load_json_crime_data example_files ''other.json'' = Inr None
   \<and> load_json_crime_data example_files ''empty.json'' = Inr None
   \<and> load_try example_files ''short.json'' = Inl (IndexError ''list index out of range'')
   \<and> load_json_crime_data example_files ''short.json'' = Inr None
   \<and> (\<exists>df. load_json_crime_data example_files ''WLCrime.json''
              = Inr (Some (df, ''latitude'', ''longitude'', ''parent_incident_type'', ''date''))
           \<and> map id' df = [JInt 1, JInt 5])"
proof -
  have p: "\<And>m. print_line example_files m = Inr ()"
    by (rule example_files_print)
  define r1 where "r1 = \<lparr>id' = JInt 1, ccn = JNull, date = JNull, latitude = JInt 40,
      longitude = JInt (- 87), city = JNull, state = JNull, address = JNull,
      incident_type = JNull, parent_incident_type = JStr ''Theft'',
      parent_incident_type_id = JNull, narrative = JNull, agency_id = JNull,
      customer_id = JNull\<rparr>"
  define incidents where "incidents =
      [example_incident 1 (JList [JInt (- 87), JInt 40]),
       JDict [(''id'', JInt 2)],
       example_incident 3 (JList [JStr ''n/a'', JNull]),
       example_incident 4 (JList [JInt 0, JInt 0]),
       example_incident 5 (JList [JNum (Fin (- 86.5)), JNum (Fin 39.75)])]"
  define records where "records =
      [r1, r1\<lparr>id' := JInt 3, latitude := JNull, longitude := JStr ''n/a''\<rparr>,
       r1\<lparr>id' := JInt 4, latitude := JInt 0, longitude := JInt 0\<rparr>,
       r1\<lparr>id' := JInt 5, latitude := JNum (Fin 39.75), longitude := JNum (Fin (- 86.5))\<rparr>]"
  have f: "load_json example_files ''WLCrime.json'' = Inr (example_document incidents)
           \<and> extract_incidents (example_document incidents) = Inr (Some (JList incidents))
           \<and> py_iter (JList incidents) = Inr incidents
           \<and> collect_records incidents = Inr records
           \<and> records \<noteq> []
           \<and> convert_column (to_numeric example_files) (map latitude records)
               = Inr [Fin 40, NaN, Fin 0, Fin 39.75]
           \<and> convert_column (to_numeric example_files) (map longitude records)
               = Inr [Fin (- 87), NaN, Fin 0, Fin (- 86.5)]"
    by (simp add: example_files_def extract_incidents_def example_document_def incidents_def
        records_def r1_def example_incident_def record_of_def example_to_numeric_def)
  define table where "table =
      filter in_window
        (dropna (map (\<lambda>(r, lat, lon). with_coordinates r lat lon)
           (zip records (zip [Fin 40, NaN, Fin 0, Fin 39.75]
                             [Fin (- 87), NaN, Fin 0, Fin (- 86.5)]))))"
  have "load_json_crime_data example_files ''WLCrime.json''
          = Inr (Some (table, ''latitude'', ''longitude'', ''parent_incident_type'', ''date''))"
    unfolding table_def
    using load_json_crime_data_never_raises [of example_files "''WLCrime.json''"] p f by blast
  moreover have "map id' table = [JInt 1, JInt 5]"
    by (simp add: table_def records_def r1_def with_coordinates_def dropna_def in_window_def
        fge_def)
  ultimately have t: "\<exists>df. load_json_crime_data example_files ''WLCrime.json''
              = Inr (Some (df, ''latitude'', ''longitude'', ''parent_incident_type'', ''date''))
           \<and> map id' df = [JInt 1, JInt 5]"
    by (intro exI [of _ table]) simp
  have a: "load_json example_files ''missing.json''
             = Inl (FileNotFoundError ''No such file or directory'')"
    by (simp add: example_files_def)
  have b: "load_json example_files ''broken.json'' = Inl (JSONDecodeError ''Expecting value'')"
    by (simp add: example_files_def)
  have c: "load_json example_files ''other.json''
             = Inr (JDict [(''result'', JDict [(''count'', JInt 0)])])
           \<and> extract_incidents (JDict [(''result'', JDict [(''count'', JInt 0)])]) = Inr None"
    by (simp add: example_files_def extract_incidents_def)
  have d: "load_json example_files ''empty.json'' = Inr (example_document [JDict [(''id'', JInt 1)]])
           \<and> extract_incidents (example_document [JDict [(''id'', JInt 1)]])
               = Inr (Some (JList [JDict [(''id'', JInt 1)]]))
           \<and> py_iter (JList [JDict [(''id'', JInt 1)]]) = Inr [JDict [(''id'', JInt 1)]]
           \<and> collect_records [JDict [(''id'', JInt 1)]] = Inr []"
    by (simp add: example_files_def extract_incidents_def example_document_def record_of_def)
  have e: "load_try example_files ''short.json'' = Inl (IndexError ''list index out of range'')"
    by (simp add: load_try_def example_files_def extract_incidents_def example_document_def
        example_incident_def record_of_def)
  have "load_json_crime_data example_files ''missing.json'' = Inr None"
    using load_json_crime_data_never_raises [of example_files "''missing.json''"] p a by blast
  moreover have "load_json_crime_data example_files ''broken.json'' = Inr None"
    using load_json_crime_data_never_raises [of example_files "''broken.json''"] p b by blast
  moreover have "load_json_crime_data example_files ''other.json'' = Inr None"
    using load_json_crime_data_never_raises [of example_files "''other.json''"] p c by blast
  moreover have "load_json_crime_data example_files ''empty.json'' = Inr None"
    using load_json_crime_data_never_raises [of example_files "''empty.json''"] p d by blast
  moreover have "load_json_crime_data example_files ''short.json'' = Inr None"
    using load_json_crime_data_never_raises [of example_files "''short.json''"] p e by blast
  ultimately show ?thesis using e p t by simp
qed

text \<open>
  The claim as stated fails in two ways. A file whose records are all removed by the
  cleaning of the coordinates has passed the test for "no valid records": the function
  returns the empty table, which the callers test for, not \<^verbatim>\<open>None\<close>. And the line
  printed before the \<^verbatim>\<open>try\<close> is out of the reach of the \<^verbatim>\<open>except\<close> clauses, as
  are the lines they print themselves: on a standard output that takes ASCII only, the
  exception of \<^verbatim>\<open>print\<close> reaches the caller, for a file that loads as for a missing
  one.
\<close>

theorem load_json_crime_data_counterexample:
  "load_json_crime_data example_files ''far.json''
     = Inr (Some ([], ''latitude'', ''longitude'', ''parent_incident_type'', ''date''))
   \<and> load_json_crime_data (example_files\<lparr>print_line := example_ascii_stdout\<rparr>) ''WLCrime.json''
     = Inl (UnicodeEncodeError ''ordinal not in range(128)'')
   \<and> load_json_crime_data (example_files\<lparr>print_line := example_ascii_stdout\<rparr>) ''missing.json''
     = Inl (UnicodeEncodeError ''ordinal not in range(128)'')"
proof -
  have "load_json_crime_data example_files ''far.json''
     = Inr (Some ([], ''latitude'', ''longitude'', ''parent_incident_type'', ''date''))"
    by (simp add: load_json_crime_data_def load_try_def example_files_def example_document_def
      example_incident_def extract_incidents_def record_of_def example_to_numeric_def
      with_coordinates_def dropna_def in_window_def fge_def)
  moreover have "load_json_crime_data (example_files\<lparr>print_line := example_ascii_stdout\<rparr>) path
     = Inl (UnicodeEncodeError ''ordinal not in range(128)'')" for path
    by (simp add: load_json_crime_data_def example_ascii_stdout_def)
  ultimately show ?thesis by simp
qed

text \<open>
  An exception of \<^verbatim>\<open>print\<close> inside the \<^verbatim>\<open>try\<close> is caught by the last clause, whose
  own \<^verbatim>\<open>print\<close> then decides: here only the lines of the \<^verbatim>\<open>try\<close> block fail, and
  the function returns \<^verbatim>\<open>None\<close> for a file that would load.
\<close>

lemma load_json_crime_data_print_caught:
  "load_json_crime_data
     (example_files\<lparr>print_line :=
        (\<lambda>m. case m of File_loaded \<Rightarrow> Inl (UnicodeEncodeError ''ordinal not in range(128)'')
                | _ \<Rightarrow> Inr ())\<rparr>) ''WLCrime.json''
     = Inr None"
  by (simp add: load_json_crime_data_def load_try_def example_files_def)

section \<open>Dijkstra and A*\<close>

lemma pick_in: "pick e xs \<in> set (e # xs)"
  by (induction xs arbitrary: e) auto

lemma pop_in: "frontier \<noteq> [] \<Longrightarrow> pop frontier \<in> set frontier"
  using pick_in [of "hd frontier" "tl frontier"] by (cases frontier) (auto simp: pop_def)

lemma is_route_snoc:
  "is_route g s (es @ [e]) t \<longleftrightarrow> is_route g s es (fst e) \<and> e \<in> set g \<and> fst (snd e) = t"
  by (induction es arbitrary: s) auto

lemma total_cost_simps:
  "total_cost [] = 0" "total_cost (e # es) = snd (snd e) + total_cost es"
  "total_cost (es @ [e]) = total_cost es + snd (snd e)" "total_cost (rev es) = total_cost es"
  by (simp_all add: total_cost_def rev_map [symmetric])

lemma pick_least: "x \<in> set (e # xs) \<Longrightarrow> fst (pick e xs) \<le> fst x"
proof (induction xs arbitrary: e x)
  case Nil
  then show ?case by simp
next
  case (Cons y ys)
  have step: "fst (pick (if before e y then e else y) ys) \<le> fst (if before e y then e else y)"
    using Cons.IH [of "if before e y then e else y" "if before e y then e else y"] by simp
  have le: "fst (if before e y then e else y) \<le> fst e" "fst (if before e y then e else y) \<le> fst y"
    by (auto simp: before_def)
  show ?case
  proof (cases "x \<in> set ys")
    case True
    then show ?thesis using Cons.IH [of x "if before e y then e else y"] by simp
  next
    case False
    then have "x = e \<or> x = y" using Cons.prems by auto
    then show ?thesis using step le by auto
  qed
qed

lemma pop_least: "x \<in> set frontier \<Longrightarrow> fst (pop frontier) \<le> fst x"
  using pick_least [of x "hd frontier" "tl frontier"] by (cases frontier) (auto simp: pop_def)

text \<open>Every route to a node not yet visited is covered by a frontier entry.\<close>

lemma frontier_covers:
  assumes "search_inv g h s goal frontier visited" and "consistent g h"
  shows "is_route g s r w \<Longrightarrow> w \<notin> set visited \<Longrightarrow> \<exists>e\<in>set frontier. fst e \<le> total_cost r + h w"
proof (induction r arbitrary: w rule: rev_induct)
  case Nil
  then have "w = s" by simp
  then show ?case using assms(1) Nil.prems(2) by (auto simp: search_inv_def total_cost_simps)
next
  case (snoc e r)
  obtain a v c where e: "e = (a, v, c)" by (cases e)
  have r: "is_route g s r a" and eg: "(a, v, c) \<in> set g" and vw: "v = w"
    using snoc.prems(1) by (auto simp: is_route_snoc e)
  show ?case
  proof (cases "a \<in> set visited")
    case True
    from assms(1) eg True have "v \<in> set visited
        \<or> (\<exists>e\<in>set frontier. fst (snd e) = v
              \<and> (\<forall>r. is_route g s r a \<longrightarrow> fst e \<le> total_cost r + c + h v))"
      unfolding search_inv_def by fast
    then show ?thesis using snoc.prems(2) vw r by (auto simp: total_cost_simps e)
  next
    case False
    then obtain x where x: "x \<in> set frontier" "fst x \<le> total_cost r + h a"
      using snoc.IH [OF r] by blast
    have "h a \<le> c + h v" using assms(2) eg unfolding consistent_def by fast
    then show ?thesis using x vw by (auto simp: total_cost_simps e intro!: bexI [of _ x])
  qed
qed

lemma popped_is_optimal:
  assumes "search_inv g h s goal frontier visited" and "consistent g h"
    and "frontier \<noteq> []" and "pop frontier = (k, u, d, p)" and "u \<notin> set visited"
  shows "is_route g s (rev p) u \<and> d = total_cost p \<and> (\<forall>r. is_route g s r u \<longrightarrow> d \<le> total_cost r)"
proof -
  have mem: "(k, u, d, p) \<in> set frontier" using pop_in [OF assms(3)] assms(4) by simp
  then have e: "k = d + h u" "is_route g s (rev p) u" "d = total_cost p"
    using assms(1) unfolding search_inv_def by fast+
  have "d \<le> total_cost r" if route: "is_route g s r u" for r
  proof -
    obtain x where "x \<in> set frontier" "fst x \<le> total_cost r + h u"
      using frontier_covers [OF assms(1,2) route assms(5)] by blast
    then have "k \<le> total_cost r + h u" using pop_least [of x frontier] assms(4) by simp
    then show ?thesis using e(1) by simp
  qed
  then show ?thesis using e by simp
qed

lemma in_remove1: "x \<in> set xs \<Longrightarrow> x \<noteq> y \<Longrightarrow> x \<in> set (remove1 y xs)"
  by simp

lemma search_inv_skip:
  assumes inv: "search_inv g h s goal frontier visited"
    and "pop frontier = (k, u, d, p)" and "u \<in> set visited"
  shows "search_inv g h s goal (remove1 (k, u, d, p) frontier) visited"
proof -
  let ?F = "remove1 (k, u, d, p) frontier"
  have keep: "e \<in> set ?F" if "e \<in> set frontier" "fst (snd e) \<notin> set visited" for e
    using that assms(3) by (intro in_remove1) auto
  have i1: "\<forall>(k, u, d, p)\<in>set ?F. k = d + h u \<and> is_route g s (rev p) u \<and> d = total_cost p"
  proof -
    have "set ?F \<subseteq> set frontier" by (rule set_remove1_subset)
    then show ?thesis using inv unfolding search_inv_def by fast
  qed
  have i0: "s \<in> set visited \<or> (\<exists>e\<in>set ?F. fst (snd e) = s \<and> fst e \<le> h s)"
  proof (cases "s \<in> set visited")
    case False
    then obtain e where "e \<in> set frontier" "fst (snd e) = s" "fst e \<le> h s"
      using inv unfolding search_inv_def by blast
    then show ?thesis using keep [of e] False by auto
  qed simp
  have i2: "v \<in> set visited
        \<or> (\<exists>e\<in>set ?F. fst (snd e) = v
              \<and> (\<forall>r. is_route g s r a \<longrightarrow> fst e \<le> total_cost r + c + h v))"
    if eg: "(a, v, c) \<in> set g" and a: "a \<in> set visited" for a v c
  proof (cases "v \<in> set visited")
    case False
    then obtain e where "e \<in> set frontier" "fst (snd e) = v"
       "\<forall>r. is_route g s r a \<longrightarrow> fst e \<le> total_cost r + c + h v"
      using inv eg a unfolding search_inv_def by fast
    then show ?thesis using keep [of e] False by auto
  qed simp
  have i3: "goal \<notin> set visited" using inv unfolding search_inv_def by simp
  show ?thesis unfolding search_inv_def using i0 i1 i2 i3 by blast
qed

lemma expand_mem:
  "(a, v, c) \<in> set g \<Longrightarrow> a = u \<Longrightarrow> (d + c + h v, v, d + c, (a, v, c) # p) \<in> set (expand g h u d p)"
  by (force simp: expand_def)

lemma expand_entries:
  "e \<in> set (expand g h u d p) \<Longrightarrow>
     \<exists>v c. (u, v, c) \<in> set g \<and> e = (d + c + h v, v, d + c, (u, v, c) # p)"
  by (auto simp: expand_def)

lemma search_inv_visit:
  assumes inv: "search_inv g h s goal frontier visited" and con: "consistent g h"
    and ne: "frontier \<noteq> []" and pop: "pop frontier = (k, u, d, p)"
    and fresh: "u \<notin> set visited" and ng: "u \<noteq> goal"
  shows "search_inv g h s goal (remove1 (k, u, d, p) frontier @ expand g h u d p) (u # visited)"
proof -
  let ?F = "remove1 (k, u, d, p) frontier @ expand g h u d p"
  have opt: "is_route g s (rev p) u" "d = total_cost p" "\<forall>r. is_route g s r u \<longrightarrow> d \<le> total_cost r"
    using popped_is_optimal [OF inv con ne pop fresh] by blast+
  have keep: "e \<in> set ?F" if "e \<in> set frontier" "fst (snd e) \<noteq> u" for e
  proof -
    have "e \<noteq> (k, u, d, p)" using that(2) by auto
    then show ?thesis using that(1) by simp
  qed
  have i1: "\<forall>(k, u, d, p)\<in>set ?F. k = d + h u \<and> is_route g s (rev p) u \<and> d = total_cost p"
  proof (clarify)
    fix k' u' d' p'
    assume "(k', u', d', p') \<in> set ?F"
    then consider "(k', u', d', p') \<in> set frontier" | "(k', u', d', p') \<in> set (expand g h u d p)"
      using notin_set_remove1 by fastforce
    then show "k' = d' + h u' \<and> is_route g s (rev p') u' \<and> d' = total_cost p'"
    proof cases
      case 1
      then show ?thesis using inv unfolding search_inv_def by fast
    next
      case 2
      then obtain v c where "(u, v, c) \<in> set g" "(k', u', d', p') = (d + c + h v, v, d + c, (u, v, c) # p)"
        using expand_entries by blast
      then show ?thesis using opt(1,2) by (simp add: is_route_snoc total_cost_simps)
    qed
  qed
  have i0: "s \<in> set (u # visited) \<or> (\<exists>e\<in>set ?F. fst (snd e) = s \<and> fst e \<le> h s)"
  proof (cases "s \<in> set (u # visited)")
    case False
    then obtain e where "e \<in> set frontier" "fst (snd e) = s" "fst e \<le> h s"
      using inv unfolding search_inv_def by auto
    then show ?thesis using keep [of e] False by auto
  qed simp
  have i2: "v \<in> set (u # visited)
        \<or> (\<exists>e\<in>set ?F. fst (snd e) = v
              \<and> (\<forall>r. is_route g s r a \<longrightarrow> fst e \<le> total_cost r + c + h v))"
    if eg: "(a, v, c) \<in> set g" and a: "a \<in> set (u # visited)" for a v c
  proof (cases "v \<in> set (u # visited)")
    case v: False
    show ?thesis
    proof (cases "a = u")
      case True
      define e where "e = (d + c + h v, v, d + c, (a, v, c) # p)"
      have "e \<in> set ?F"
        using expand_mem [OF eg True, of d h p] by (simp add: e_def)
      moreover have "fst (snd e) = v" by (simp add: e_def)
      moreover have "\<forall>r. is_route g s r a \<longrightarrow> fst e \<le> total_cost r + c + h v"
        using opt(3) True by (simp add: e_def)
      ultimately show ?thesis by blast
    next
      case False
      then have "a \<in> set visited" using a by simp
      moreover have "v \<notin> set visited" using v by simp
      ultimately obtain e where e: "e \<in> set frontier" "fst (snd e) = v"
         "\<forall>r. is_route g s r a \<longrightarrow> fst e \<le> total_cost r + c + h v"
        using inv eg unfolding search_inv_def by fast
      then have "e \<in> set ?F" using keep [of e] v by auto
      then show ?thesis using e by blast
    qed
  qed simp
  have i3: "goal \<notin> set (u # visited)" using inv ng unfolding search_inv_def by simp
  show ?thesis unfolding search_inv_def using i0 i1 i2 i3 by blast
qed

lemma search_cheapest:
  "search_inv g h s goal frontier visited \<Longrightarrow> consistent g h
     \<Longrightarrow> cheapest g s goal (fst (route_search g h goal frontier visited))"
proof (induction g h goal frontier visited rule: route_search.induct)
  case (1 g h goal frontier visited)
  show ?case
  proof (cases "frontier = []")
    case True
    have "\<not> (\<exists>r. is_route g s r goal)"
    proof
      assume "\<exists>r. is_route g s r goal"
      then obtain r where "is_route g s r goal" by blast
      moreover have "goal \<notin> set visited" using "1.prems"(1) unfolding search_inv_def by simp
      ultimately show False using frontier_covers [OF "1.prems"] True by fastforce
    qed
    then show ?thesis using True by (simp add: route_search.simps [of g h goal "[]"] cheapest_def)
  next
    case False
    obtain k u d p where pop: "pop frontier = (k, u, d, p)" by (cases "pop frontier")
    show ?thesis
    proof (cases "u \<in> set visited")
      case True
      have "search_inv g h s goal (remove1 (k, u, d, p) frontier) visited"
        using search_inv_skip [OF "1.prems"(1) pop True] .
      then have "cheapest g s goal (fst (route_search g h goal (remove1 (k, u, d, p) frontier) visited))"
        using "1.IH"(1) [OF False pop [symmetric] refl refl True] "1.prems"(2) by simp
      then show ?thesis using False pop True by (simp add: route_search.simps [of g h goal frontier])
    next
      case fresh: False
      show ?thesis
      proof (cases "u = goal")
        case True
        have opt: "is_route g s (rev p) goal" "d = total_cost (rev p)"
            "\<forall>r. is_route g s r goal \<longrightarrow> d \<le> total_cost r"
          using popped_is_optimal [OF "1.prems" False pop fresh] True
          by (auto simp: total_cost_simps)
        have "fst (route_search g h goal frontier visited) = Some (rev p, d)"
          using False pop fresh True by (simp add: route_search.simps [of g h goal frontier])
        then show ?thesis using opt by (simp add: cheapest_def)
      next
        case ng: False
        have "search_inv g h s goal (remove1 (k, u, d, p) frontier @ expand g h u d p) (u # visited)"
          using search_inv_visit [OF "1.prems" False pop fresh ng] .
        then have "cheapest g s goal
            (fst (route_search g h goal (remove1 (k, u, d, p) frontier @ expand g h u d p) (u # visited)))"
          using "1.IH"(2) [OF False pop [symmetric] refl refl fresh ng] "1.prems"(2) by simp
        then show ?thesis using False pop fresh ng by (simp add: route_search.simps [of g h goal frontier])
      qed
    qed
  qed
qed

lemma cheapest_unique_cost:
  "cheapest g s t r1 \<Longrightarrow> cheapest g s t r2 \<Longrightarrow> map_option snd r1 = map_option snd r2"
  by (cases r1; cases r2) (auto simp: cheapest_def intro: antisym)

lemma heuristic_consistent:
  assumes "\<forall>(a, v, c)\<in>set g. scale * gc a v \<le> c" and "0 \<le> scale"
    and "\<forall>u v. gc u goal \<le> gc u v + gc v goal"
  shows "consistent g (heuristic scale gc goal)"
  unfolding consistent_def
proof (clarify)
  fix a v c assume e: "(a, v, c) \<in> set g"
  have "scale * gc a goal \<le> scale * (gc a v + gc v goal)"
    using assms(2,3) by (simp add: mult_left_mono)
  also have "\<dots> = scale * gc a v + scale * gc v goal" by (simp add: distrib_left)
  also have "\<dots> \<le> c + scale * gc v goal" using assms(1) e by auto
  finally show "heuristic scale gc goal a \<le> c + heuristic scale gc goal v"
    by (simp add: heuristic_def)
qed

lemma zero_consistent: "\<forall>(a, v, c)\<in>set g. 0 \<le> c \<Longrightarrow> consistent g (\<lambda>u. 0)"
  by (auto simp: consistent_def)

lemma astar_cheapest:
  "consistent g h \<Longrightarrow> cheapest g start goal (fst (astar g h start goal))"
  unfolding astar_def
  by (rule search_cheapest) (simp_all add: search_inv_def total_cost_simps)

lemma dijkstra_cheapest:
  "\<forall>(a, v, c)\<in>set g. 0 \<le> c \<Longrightarrow> cheapest g start goal (fst (dijkstra g start goal))"
  unfolding dijkstra_def
  by (rule search_cheapest) (simp_all add: search_inv_def total_cost_simps zero_consistent)

lemma search_empty: "route_search g h goal [] visited = (None, visited)"
  by (simp add: route_search.simps [of g h goal "[]"])

lemma search_skip:
  "frontier \<noteq> [] \<Longrightarrow> pop frontier = (k, u, d, p) \<Longrightarrow> u \<in> set visited \<Longrightarrow>
     route_search g h goal frontier visited = route_search g h goal (remove1 (k, u, d, p) frontier) visited"
  by (simp add: route_search.simps [of g h goal frontier])

lemma search_goal:
  "frontier \<noteq> [] \<Longrightarrow> pop frontier = (k, goal, d, p) \<Longrightarrow> goal \<notin> set visited \<Longrightarrow>
     route_search g h goal frontier visited = (Some (rev p, d), goal # visited)"
  by (simp add: route_search.simps [of g h goal frontier])

lemma search_visit:
  "frontier \<noteq> [] \<Longrightarrow> pop frontier = (k, u, d, p) \<Longrightarrow> u \<notin> set visited \<Longrightarrow> u \<noteq> goal \<Longrightarrow>
     route_search g h goal frontier visited
       = route_search g h goal (remove1 (k, u, d, p) frontier @ expand g h u d p) (u # visited)"
  by (simp add: route_search.simps [of g h goal frontier])

lemma search_inv_induct_aux:
  "search_inv g h s goal frontier visited \<Longrightarrow> consistent g h \<Longrightarrow>
   \<forall>visited. search_inv g h s goal [] visited \<longrightarrow> P [] visited \<Longrightarrow>
   \<forall>frontier visited k u d p.
      search_inv g h s goal frontier visited \<longrightarrow> frontier \<noteq> [] \<longrightarrow>
      pop frontier = (k, u, d, p) \<longrightarrow> u \<in> set visited \<longrightarrow>
      P (remove1 (k, u, d, p) frontier) visited \<longrightarrow> P frontier visited \<Longrightarrow>
   \<forall>frontier visited k d p.
      search_inv g h s goal frontier visited \<longrightarrow> frontier \<noteq> [] \<longrightarrow>
      pop frontier = (k, goal, d, p) \<longrightarrow> goal \<notin> set visited \<longrightarrow> P frontier visited \<Longrightarrow>
   \<forall>frontier visited k u d p.
      search_inv g h s goal frontier visited \<longrightarrow> frontier \<noteq> [] \<longrightarrow>
      pop frontier = (k, u, d, p) \<longrightarrow> u \<notin> set visited \<longrightarrow> u \<noteq> goal \<longrightarrow>
      P (remove1 (k, u, d, p) frontier @ expand g h u d p) (u # visited) \<longrightarrow>
      P frontier visited \<Longrightarrow>
   P frontier visited"
proof (induction g h goal frontier visited rule: route_search.induct)
  case (1 g h goal frontier visited)
  note inv = "1.prems"(1) and con = "1.prems"(2)
  show ?case
  proof (cases "frontier = []")
    case True
    then show ?thesis using "1.prems"(3) inv by simp
  next
    case False
    obtain k u d p where pop: "pop frontier = (k, u, d, p)" by (cases "pop frontier")
    show ?thesis
    proof (cases "u \<in> set visited")
      case True
      have "P (remove1 (k, u, d, p) frontier) visited"
        using "1.IH"(1) [OF False pop [symmetric] refl refl True
            search_inv_skip [OF inv pop True] con "1.prems"(3) "1.prems"(4) "1.prems"(5)
            "1.prems"(6)] .
      then show ?thesis using "1.prems"(4) inv False pop True by blast
    next
      case fresh: False
      show ?thesis
      proof (cases "u = goal")
        case True
        then show ?thesis using "1.prems"(5) inv False pop fresh by blast
      next
        case ng: False
        have "P (remove1 (k, u, d, p) frontier @ expand g h u d p) (u # visited)"
          using "1.IH"(2) [OF False pop [symmetric] refl refl fresh ng
              search_inv_visit [OF inv con False pop fresh ng] con "1.prems"(3) "1.prems"(4)
              "1.prems"(5) "1.prems"(6)] .
        then show ?thesis using "1.prems"(6) inv False pop fresh ng by blast
      qed
    qed
  qed
qed

text \<open>Induction over the run of a search that starts in a state of the invariant.\<close>

lemma search_inv_induct [consumes 2, case_names empty skip goal visit]:
  assumes "search_inv g h s goal frontier visited" and "consistent g h"
    and "\<And>visited. search_inv g h s goal [] visited \<Longrightarrow> P [] visited"
    and "\<And>frontier visited k u d p.
           search_inv g h s goal frontier visited \<Longrightarrow> frontier \<noteq> [] \<Longrightarrow>
           pop frontier = (k, u, d, p) \<Longrightarrow> u \<in> set visited \<Longrightarrow>
           P (remove1 (k, u, d, p) frontier) visited \<Longrightarrow> P frontier visited"
    and "\<And>frontier visited k d p.
           search_inv g h s goal frontier visited \<Longrightarrow> frontier \<noteq> [] \<Longrightarrow>
           pop frontier = (k, goal, d, p) \<Longrightarrow> goal \<notin> set visited \<Longrightarrow> P frontier visited"
    and "\<And>frontier visited k u d p.
           search_inv g h s goal frontier visited \<Longrightarrow> frontier \<noteq> [] \<Longrightarrow>
           pop frontier = (k, u, d, p) \<Longrightarrow> u \<notin> set visited \<Longrightarrow> u \<noteq> goal \<Longrightarrow>
           P (remove1 (k, u, d, p) frontier @ expand g h u d p) (u # visited) \<Longrightarrow>
           P frontier visited"
  shows "P frontier visited"
  by (rule search_inv_induct_aux [OF assms(1,2), of P]) (use assms(3-6) in blast)+

lemma popped_key_bound:
  assumes "search_inv g h s goal frontier visited" and "consistent g h"
    and "pop frontier = (k, u, d, p)" and "is_route g s r w" and "w \<notin> set visited"
  shows "k \<le> total_cost r + h w"
proof -
  obtain x where "x \<in> set frontier" "fst x \<le> total_cost r + h w"
    using frontier_covers [OF assms(1,2,4,5)] by blast
  then show ?thesis using pop_least [of x frontier] assms(3) by simp
qed

lemma search_visited_distinct:
  assumes "search_inv g h s goal frontier visited" and "consistent g h"
  shows "distinct visited \<Longrightarrow> distinct (snd (route_search g h goal frontier visited))"
  using assms
proof (induction rule: search_inv_induct)
  case (empty visited)
  then show ?case by (simp add: search_empty)
next
  case (skip frontier visited k u d p)
  then show ?case by (simp add: search_skip)
next
  case (goal frontier visited k d p)
  then show ?case by (simp add: search_goal)
next
  case (visit frontier visited k u d p)
  then show ?case by (simp add: search_visit)
qed

lemma search_found_visits_goal:
  assumes "search_inv g h s goal frontier visited" and "consistent g h"
  shows "fst (route_search g h goal frontier visited) = Some res
           \<Longrightarrow> goal \<in> set (snd (route_search g h goal frontier visited))"
  using assms
proof (induction rule: search_inv_induct)
  case (empty visited)
  then show ?case by (simp add: search_empty)
next
  case (skip frontier visited k u d p)
  then show ?case by (simp add: search_skip)
next
  case (goal frontier visited k d p)
  then show ?case by (simp add: search_goal)
next
  case (visit frontier visited k u d p)
  then show ?case by (simp add: search_visit)
qed

text \<open>A node the search visits is reached by a route whose key is at most the key of any route to the goal.\<close>

lemma search_visited_bound:
  assumes "search_inv g h s goal frontier visited" and "consistent g h"
  shows "w \<in> set (snd (route_search g h goal frontier visited)) \<Longrightarrow> w \<notin> set visited \<Longrightarrow>
           \<exists>r. is_route g s r w
             \<and> (\<forall>r'. is_route g s r' goal \<longrightarrow> total_cost r + h w \<le> total_cost r' + h goal)"
  using assms
proof (induction rule: search_inv_induct)
  case (empty visited)
  then show ?case by (simp add: search_empty)
next
  case (skip frontier visited k u d p)
  then show ?case by (simp add: search_skip)
next
  case (goal frontier visited k d p)
  then have w: "w = goal" by (simp add: search_goal)
  have opt: "is_route g s (rev p) goal" "d = total_cost p"
      "\<forall>r. is_route g s r goal \<longrightarrow> d \<le> total_cost r"
    using popped_is_optimal [OF goal(1) assms(2) goal(2,3,4)] by blast+
  show ?case using w opt by (intro exI [of _ "rev p"]) (simp add: total_cost_simps)
next
  case (visit frontier visited k u d p)
  show ?case
  proof (cases "w = u")
    case True
    have opt: "is_route g s (rev p) u" "d = total_cost p"
      using popped_is_optimal [OF visit(1) assms(2) visit(2,3,4)] by blast+
    have mem: "(k, u, d, p) \<in> set frontier" using pop_in [OF visit(2)] visit(3) by simp
    then have key: "k = d + h u" using visit(1) unfolding search_inv_def by fast
    have ng: "goal \<notin> set visited" using visit(1) unfolding search_inv_def by simp
    have "total_cost (rev p) + h u \<le> total_cost r' + h goal" if "is_route g s r' goal" for r'
      using popped_key_bound [OF visit(1) assms(2) visit(3) that ng] key opt(2)
      by (simp add: total_cost_simps)
    then show ?thesis using True opt(1) by blast
  next
    case False
    then show ?thesis using visit by (simp add: search_visit)
  qed
qed

text \<open>When a route is found, every node with a route of smaller key has been visited.\<close>

lemma search_cheaper_visited:
  assumes "search_inv g h s goal frontier visited" and "consistent g h"
  shows "fst (route_search g h goal frontier visited) = Some (route, C) \<Longrightarrow> is_route g s r w \<Longrightarrow>
           total_cost r + h w < C + h goal \<Longrightarrow> w \<in> set (snd (route_search g h goal frontier visited))"
  using assms
proof (induction rule: search_inv_induct)
  case (empty visited)
  then show ?case by (simp add: search_empty)
next
  case (skip frontier visited k u d p)
  then show ?case by (simp add: search_skip)
next
  case (goal frontier visited k d p)
  have C: "C = d" using goal by (simp add: search_goal)
  have mem: "(k, goal, d, p) \<in> set frontier" using pop_in [OF goal(2)] goal(3) by simp
  then have key: "k = d + h goal" using goal(1) unfolding search_inv_def by fast
  have "w \<in> set visited"
  proof (rule ccontr)
    assume "w \<notin> set visited"
    then have "k \<le> total_cost r + h w"
      using popped_key_bound [OF goal(1) assms(2) goal(3) goal.prems(2)] by simp
    then show False using goal.prems(3) key C by simp
  qed
  then show ?case using goal by (simp add: search_goal)
next
  case (visit frontier visited k u d p)
  then show ?case by (simp add: search_visit)
qed

text \<open>When no route is found, every node that has a route has been visited.\<close>

lemma search_none_visits_all:
  assumes "search_inv g h s goal frontier visited" and "consistent g h"
  shows "fst (route_search g h goal frontier visited) = None \<Longrightarrow> is_route g s r w
           \<Longrightarrow> w \<in> set (snd (route_search g h goal frontier visited))"
  using assms
proof (induction rule: search_inv_induct)
  case (empty visited)
  have "w \<in> set visited"
  proof (rule ccontr)
    assume "w \<notin> set visited"
    then show False using frontier_covers [OF empty(1) assms(2) empty.prems(2)] by simp
  qed
  then show ?case by (simp add: search_empty)
next
  case (skip frontier visited k u d p)
  then show ?case by (simp add: search_skip)
next
  case (goal frontier visited k d p)
  then show ?case by (simp add: search_goal)
next
  case (visit frontier visited k u d p)
  then show ?case by (simp add: search_visit)
qed

lemma astar_inv: "search_inv g h start goal [(h start, start, 0, [])] []"
  by (simp add: search_inv_def total_cost_simps)

lemma astar_visits_le_dijkstra:
  assumes nonneg: "\<forall>(a, v, c)\<in>set g. 0 \<le> c"
    and con: "consistent g h"
    and zero: "h goal = 0" and apart: "\<forall>u. u \<noteq> goal \<longrightarrow> 0 < h u"
  shows "length (snd (astar g h start goal)) \<le> length (snd (dijkstra g start goal))"
proof -
  let ?A = "route_search g h goal [(h start, start, 0, [])] []"
  let ?D = "route_search g (\<lambda>u. 0) goal [(0, start, 0, [])] []"
  have invA: "search_inv g h start goal [(h start, start, 0, [])] []" by (rule astar_inv)
  have invD: "search_inv g (\<lambda>u. 0) start goal [(0, start, 0, [])] []"
    using astar_inv [of g "\<lambda>u. 0" start goal] by simp
  have conD: "consistent g (\<lambda>u. 0)" using nonneg by (rule zero_consistent)
  have dist: "distinct (snd ?A)" using search_visited_distinct [OF invA con] by simp
  have sub: "set (snd ?A) \<subseteq> set (snd ?D)"
  proof
    fix w assume "w \<in> set (snd ?A)"
    then obtain r where r: "is_route g start r w"
      and bound: "\<forall>r'. is_route g start r' goal \<longrightarrow> total_cost r + h w \<le> total_cost r' + h goal"
      using search_visited_bound [OF invA con, of w] by auto
    show "w \<in> set (snd ?D)"
    proof (cases "fst ?D")
      case None
      then show ?thesis using search_none_visits_all [OF invD conD _ r] by simp
    next
      case (Some res)
      obtain route C where res: "res = (route, C)" by (cases res)
      have ch: "cheapest g start goal (fst ?D)" using search_cheapest [OF invD conD] .
      then have route: "is_route g start route goal" "C = total_cost route"
        using Some res by (simp_all add: cheapest_def)
      show ?thesis
      proof (cases "w = goal")
        case True
        then show ?thesis using search_found_visits_goal [OF invD conD Some] by simp
      next
        case False
        then have "0 < h w" using apart by simp
        moreover have "total_cost r + h w \<le> C" using bound route zero by auto
        ultimately have "total_cost r + 0 < C + 0" by simp
        then show ?thesis
          using search_cheaper_visited [OF invD conD _ r, of route C] Some res by simp
      qed
    qed
  qed
  have "length (snd ?A) = card (set (snd ?A))" using dist by (simp add: distinct_card)
  also have "\<dots> \<le> card (set (snd ?D))" using sub by (simp add: card_mono)
  also have "\<dots> \<le> length (snd ?D)" by (rule card_length)
  finally show ?thesis by (simp add: astar_def dijkstra_def)
qed

text \<open>
  Claim C6, as amended. On a variant whose costs are not negative, with the heuristic
  of the specification (the great-circle distance to the goal, which obeys the triangle
  inequality, scaled so that on no edge it exceeds the cost of the edge), A* and
  Dijkstra return routes of equal total cost for every start and goal, each a cheapest
  route of the variant, or both find no route. And A* visits at most as many nodes as
  Dijkstra when the goal is at distance zero from itself and the heuristic is positive
  at every other node, that is, when no other node lies at the goal's position.
\<close>

theorem dijkstra_astar_equal_cost_visits:
  assumes "\<forall>(a, v, c)\<in>set g. 0 \<le> c"
    and "\<forall>(a, v, c)\<in>set g. scale * gc a v \<le> c" and "0 \<le> scale"
    and "\<forall>u v. gc u goal \<le> gc u v + gc v goal"
  shows "map_option snd (fst (astar g (heuristic scale gc goal) start goal))
           = map_option snd (fst (dijkstra g start goal))
       \<and> cheapest g start goal (fst (astar g (heuristic scale gc goal) start goal))
       \<and> cheapest g start goal (fst (dijkstra g start goal))
       \<and> (gc goal goal = 0 \<and> (\<forall>u. u \<noteq> goal \<longrightarrow> 0 < scale * gc u goal)
            \<longrightarrow> length (snd (astar g (heuristic scale gc goal) start goal))
                  \<le> length (snd (dijkstra g start goal)))"
proof -
  have con: "consistent g (heuristic scale gc goal)"
    using heuristic_consistent [OF assms(2,3,4)] .
  have a: "cheapest g start goal (fst (astar g (heuristic scale gc goal) start goal))"
    using astar_cheapest [OF con] .
  have d: "cheapest g start goal (fst (dijkstra g start goal))"
    using dijkstra_cheapest [OF assms(1)] .
  have v: "length (snd (astar g (heuristic scale gc goal) start goal))
                  \<le> length (snd (dijkstra g start goal))"
    if "gc goal goal = 0 \<and> (\<forall>u. u \<noteq> goal \<longrightarrow> 0 < scale * gc u goal)"
    using astar_visits_le_dijkstra [OF assms(1) con] that by (simp add: heuristic_def)
  show ?thesis using a d cheapest_unique_cost [OF a d] v by blast
qed

lemma example_wide_dijkstra:
  "dijkstra example_wide_graph 0 3 = (Some ([(0, 5, 1), (5, 3, 1)], 2), [3, 5, 4, 0])"
  by (simp add: dijkstra_def example_wide_graph_def pop_def before_def expand_def route_search.simps)

lemma example_wide_astar:
  "astar example_wide_graph (heuristic 1 example_wide_distance 3) 0 3 = (Some ([(0, 5, 1), (5, 3, 1)], 2), [3, 5, 0])"
  by (simp add: astar_def example_wide_graph_def pop_def before_def expand_def heuristic_def
      example_wide_distance_def example_wide_position_def route_search.simps)

theorem dijkstra_astar_equal_cost_visits_witness:
  "map_option snd (fst (astar example_wide_graph (heuristic 1 example_wide_distance 3) 0 3)) = Some 2
   \<and> map_option snd (fst (dijkstra example_wide_graph 0 3)) = Some 2
   \<and> snd (astar example_wide_graph (heuristic 1 example_wide_distance 3) 0 3) = [3, 5, 0]
   \<and> snd (dijkstra example_wide_graph 0 3) = [3, 5, 4, 0]
   \<and> length (snd (astar example_wide_graph (heuristic 1 example_wide_distance 3) 0 3))
        \<le> length (snd (dijkstra example_wide_graph 0 3))"
proof -
  have n: "\<forall>(a, v, c)\<in>set example_wide_graph. 0 \<le> c" by (simp add: example_wide_graph_def)
  have s: "\<forall>(a, v, c)\<in>set example_wide_graph. 1 * example_wide_distance a v \<le> c"
    by (simp add: example_wide_graph_def example_wide_distance_def example_wide_position_def)
  have t: "\<forall>u v. example_wide_distance u 3 \<le> example_wide_distance u v + example_wide_distance v 3"
    unfolding example_wide_distance_def by (intro allI) linarith
  have z: "example_wide_distance 3 3 = 0 \<and> (\<forall>u. u \<noteq> 3 \<longrightarrow> 0 < 1 * example_wide_distance u 3)"
    by (simp add: example_wide_distance_def example_wide_position_def)
  have d: "fst (dijkstra example_wide_graph 0 3) = Some ([(0, 5, 1), (5, 3, 1)], 2)"
    by (simp add: example_wide_dijkstra)
  show ?thesis
    using dijkstra_astar_equal_cost_visits [OF n s _ t, of 0] z d
    by (simp add: example_wide_astar example_wide_dijkstra)
qed

lemma example_dijkstra: "dijkstra example_graph 0 3 = (Some ([(0, 5, 1), (5, 3, 1)], 2), [3, 5, 0])"
  by (simp add: dijkstra_def example_graph_def pop_def before_def expand_def route_search.simps)

lemma example_astar: "astar example_graph (heuristic 1 example_distance 3) 0 3 = (Some ([(0, 5, 1), (5, 3, 1)], 2), [3, 5, 4, 0])"
  by (simp add: astar_def example_graph_def pop_def before_def expand_def heuristic_def example_distance_def
      example_position_def route_search.simps)

text \<open>
  The claim as stated fails on the first variant of five nodes, where node 4 lies at the
  position of the goal, node 3: both searches return the route over node 5, of cost 2,
  but A* visits four nodes and Dijkstra three. Nodes 4 and 5 both have the key 2 in A*,
  which pops node 4 first, for its smaller id; Dijkstra pops node 5 at cost 1, and then
  the goal before node 4, both at cost 2.
\<close>

theorem astar_visits_counterexample:
  "length (snd (astar example_graph (heuristic 1 example_distance 3) 0 3)) = 4
   \<and> length (snd (dijkstra example_graph 0 3)) = 3
   \<and> \<not> length (snd (astar example_graph (heuristic 1 example_distance 3) 0 3))
         \<le> length (snd (dijkstra example_graph 0 3))"
  by (simp add: example_astar example_dijkstra)

end
